theory Spec2Isabelle
  imports Complex_Main "HOL-Library.Char_ord" "HOL-Library.List_Lexorder" "HOL-Library.AList" "HOL-Library.Word"
begin
section \<open>Strings and characters\<close>

text \<open>
  A \<open>QString\<close> / \<open>QByteArray\<close> is a \<open>string\<close>. The conversions between the two
  (\<open>toLatin1\<close>, \<open>toUtf8\<close>, and the \<open>QString\<close> made from bytes or from a \<open>const char*\<close>) are
  not written out: they leave a text of ASCII characters without a NUL as it is, and the
  development is about names, messages and markup of that kind.
\<close>

definition FIGMA_SUFFIX :: string where
  "FIGMA_SUFFIX = ''_figma''"

definition endsWith :: "string \<Rightarrow> string \<Rightarrow> bool" where
  "endsWith s suf = (length suf \<le> length s \<and> drop (length s - length suf) s = suf)"

definition isLower :: "char \<Rightarrow> bool" where
  "isLower c = (CHR ''a'' \<le> c \<and> c \<le> CHR ''z'')"

definition isUpper :: "char \<Rightarrow> bool" where
  "isUpper c = (CHR ''A'' \<le> c \<and> c \<le> CHR ''Z'')"

definition isDigit :: "char \<Rightarrow> bool" where
  "isDigit c = (CHR ''0'' \<le> c \<and> c \<le> CHR ''9'')"

text \<open>\<open>QChar::toUpper\<close> and \<open>QChar::toLower\<close> on the letters of ASCII.\<close>

definition toUpper :: "char \<Rightarrow> char" where
  "toUpper c = (case map_of (zip ''abcdefghijklmnopqrstuvwxyz'' ''ABCDEFGHIJKLMNOPQRSTUVWXYZ'') c of
                  Some u \<Rightarrow> u | None \<Rightarrow> c)"

definition toLower :: "char \<Rightarrow> char" where
  "toLower c = (case map_of (zip ''ABCDEFGHIJKLMNOPQRSTUVWXYZ'' ''abcdefghijklmnopqrstuvwxyz'') c of
                  Some u \<Rightarrow> u | None \<Rightarrow> c)"

text \<open>The character class \<open>\s\<close> of the regular expressions: TAB, LF, VT, FF, CR, space.\<close>

definition isSpace :: "char \<Rightarrow> bool" where
  "isSpace c = (c \<in> set [CHR 0x09, CHR 0x0A, CHR 0x0B, CHR 0x0C, CHR 0x0D, CHR 0x20])"

text \<open>Decimal text of a number: \<open>QString::number(int)\<close>, \<open>QString::arg(int)\<close>.\<close>

definition digitChar :: "nat \<Rightarrow> char" where
  "digitChar d = ''0123456789'' ! d"

function decimal :: "nat \<Rightarrow> string" where
  "decimal n = (if n < 10 then [digitChar n] else decimal (n div 10) @ [digitChar (n mod 10)])"
  by pat_completeness auto
termination
  by (relation "measure (\<lambda>n. n)") auto

declare decimal.simps [simp del]

definition numberInt :: "int \<Rightarrow> string" where
  "numberInt i = (if i < 0 then CHR ''-'' # decimal (nat (- i)) else decimal (nat i))"

section \<open>The name sanitizer\<close>

text \<open>
  The two \<open>QRegularExpression\<close> character classes of \<open>validFileName\<close>:
  \<^verbatim>\<open>[\\\/:*?"<>|\s]\<close> and \<^verbatim>\<open>[^a-zA-Z0-9_]\<close>. Each match is one character and is
  replaced by an underscore.
\<close>

definition reFileChars :: "char \<Rightarrow> bool" where
  "reFileChars c = (c \<in> set [CHR 0x5C, CHR ''/'', CHR '':'', CHR ''*'', CHR ''?'',
                              CHR 0x22, CHR ''<'', CHR ''>'', CHR ''|''] \<or> isSpace c)"

definition reNotWord :: "char \<Rightarrow> bool" where
  "reNotWord c = (\<not> (isLower c \<or> isUpper c \<or> isDigit c \<or> c = CHR ''_''))"

definition replaceRe :: "(char \<Rightarrow> bool) \<Rightarrow> char \<Rightarrow> string \<Rightarrow> string" where
  "replaceRe re by s = map (\<lambda>c. if re c then by else c) s"

text \<open>
  \<open>validFileName\<close> opens with \<open>Q_ASSERT(!itemName.endsWith(FIGMA_SUFFIX))\<close> after the
  check for the empty name. \<open>validFileName_assert\<close> is the asserted condition: a build with
  assertions aborts where it is false; a build without them (\<open>QT_NO_DEBUG\<close>) runs the
  body, which is \<open>validFileName\<close>.
\<close>

definition validFileName_assert :: "string \<Rightarrow> bool" where
  "validFileName_assert itemName = (\<not> endsWith itemName FIGMA_SUFFIX)"

definition validFileName :: "string \<Rightarrow> string" where
  "validFileName itemName =
     (if itemName = [] then []
      else
        let name = itemName @ FIGMA_SUFFIX;
            name = replaceRe reFileChars (CHR ''_'') name;
            name = replaceRe reNotWord (CHR ''_'') name;
            name = (if \<not> (isLower (name ! 0) \<or> isUpper (name ! 0)) then CHR ''C'' # name else name)
        in name[0 := toUpper (name ! 0)])"

text \<open>What the claims call "starts with a letter".\<close>

definition startsWithLetter :: "string \<Rightarrow> bool" where
  "startsWithLetter s = (s \<noteq> [] \<and> (isLower (s ! 0) \<or> isUpper (s ! 0)))"

section \<open>JSON values\<close>

text \<open>
  \<open>QJsonValue\<close> with its seven types. A \<open>QJsonObject\<close> is the association list of its
  members in ascending key order, without a repeated key: the order in which Qt stores
  and enumerates them. A JSON number is a \<open>double\<close>; it is modelled by a real number.
\<close>

datatype json =
    JNull
  | JBool bool
  | JDouble real
  | JString string
  | JArray "json list"
  | JObject "(string \<times> json) list"
  | JUndefined

type_synonym jobject = "(string \<times> json) list"

text \<open>The conversions return the default of the target type for a value of another type.\<close>

definition toObject :: "json \<Rightarrow> jobject" where
  "toObject v = (case v of JObject kvs \<Rightarrow> kvs | _ \<Rightarrow> [])"

definition toArray :: "json \<Rightarrow> json list" where
  "toArray v = (case v of JArray xs \<Rightarrow> xs | _ \<Rightarrow> [])"

definition toString :: "json \<Rightarrow> string" where
  "toString v = (case v of JString s \<Rightarrow> s | _ \<Rightarrow> [])"

definition toDouble :: "json \<Rightarrow> real" where
  "toDouble v = (case v of JDouble d \<Rightarrow> d | _ \<Rightarrow> 0)"

definition toBool :: "json \<Rightarrow> bool" where
  "toBool v = (case v of JBool b \<Rightarrow> b | _ \<Rightarrow> False)"

definition isString :: "json \<Rightarrow> bool" where
  "isString v = (case v of JString s \<Rightarrow> True | _ \<Rightarrow> False)"

text \<open>\<open>obj[key]\<close> on a constant object: the member, or \<open>Undefined\<close> when there is none.\<close>

definition jget :: "jobject \<Rightarrow> string \<Rightarrow> json" where
  "jget obj k = (case map_of obj k of Some v \<Rightarrow> v | None \<Rightarrow> JUndefined)"

definition contains :: "jobject \<Rightarrow> string \<Rightarrow> bool" where
  "contains obj k = (map_of obj k \<noteq> None)"

definition keys :: "jobject \<Rightarrow> string list" where
  "keys obj = map fst obj"

text \<open>\<open>QJsonObject::insert\<close>: replaces the member of that key, or adds it in key order.\<close>

fun jinsert :: "string \<Rightarrow> json \<Rightarrow> jobject \<Rightarrow> jobject" where
  "jinsert k v [] = [(k, v)]"
| "jinsert k v ((k', v') # r) =
     (if k = k' then (k, v) # r
      else if k < k' then (k, v) # (k', v') # r
      else (k', v') # jinsert k v r)"

lemma size_array_member: "x \<in> set xs \<Longrightarrow> size x < size (JArray xs)"
  by (induction xs) auto

lemma size_object_member: "map_of obj k = Some v \<Longrightarrow> size v < size (JObject obj)"
  by (induction obj) (auto split: if_splits)

text \<open>The measure of the recursions over the node tree.\<close>

definition objSize :: "jobject \<Rightarrow> nat" where
  "objSize obj = size (JObject obj)"

lemma size_child:
  assumes "child \<in> set (toArray (jget obj k))"
  shows "objSize (toObject child) < objSize obj"
proof -
  from assms obtain xs where xs: "jget obj k = JArray xs" and c: "child \<in> set xs"
    by (cases "jget obj k") (auto simp: toArray_def)
  then have "map_of obj k = Some (JArray xs)"
    by (auto simp: jget_def split: option.splits)
  then have "size (JArray xs) < size (JObject obj)" by (rule size_object_member)
  moreover have "size child < size (JArray xs)" using c by (rule size_array_member)
  moreover have "size (JObject (toObject child)) \<le> size child + 1"
    by (cases child) (auto simp: toObject_def)
  ultimately show ?thesis unfolding objSize_def by linarith
qed

section \<open>Exceptions\<close>

text \<open>
  \<open>FigmaParser::Exception\<close> holds the text \<open>what()\<close> returns. \<open>toStr\<close> writes its arguments
  separated by one space, and the macro \<open>ERR\<close> throws the exception of that text.
\<close>

datatype exception = Exception string

fun what :: "exception \<Rightarrow> string" where
  "what (Exception m_issue) = m_issue"

definition mkException :: "string \<Rightarrow> exception" where
  "mkException issue = Exception (''FigmaParser exception: '' @ issue)"

fun toStr :: "string list \<Rightarrow> string" where
  "toStr [] = []"
| "toStr [a] = a"
| "toStr (a # rest) = a @ '' '' @ toStr rest"

definition ERR :: "string list \<Rightarrow> exception + 'a" where
  "ERR args = Inl (mkException (toStr args))"

section \<open>The component catalogue\<close>

record Component =
  c_name :: string
  c_id :: string
  c_key :: string
  c_description :: string
  c_object :: jobject

text \<open>
  \<open>Components\<close> is a \<open>QHash\<close> from the component id to the component; it is kept as an
  association list in the order of insertion, and \<open>insert\<close> replaces the entry of a key
  that is present.
\<close>

type_synonym Components = "(string \<times> Component) list"

function getObjectsByType :: "jobject \<Rightarrow> string \<Rightarrow> (string \<rightharpoonup> jobject)" where
  "getObjectsByType obj type =
     (if jget obj ''type'' = JString type then [toString (jget obj ''id'') \<mapsto> obj]
      else if contains obj ''children''
      then foldl (\<lambda>objects child. objects ++ getObjectsByType (toObject child) type)
                 Map.empty (toArray (jget obj ''children''))
      else Map.empty)"
  by pat_completeness auto
termination
  by (relation "measure (\<lambda>(obj, type). objSize obj)") (auto simp: size_child)

declare getObjectsByType.simps [simp del]

subsection \<open>The place markers of \<open>QString::arg\<close>\<close>

text \<open>
  \<open>QString::arg\<close> reads its string for place markers: a percent sign, an optional \<open>L\<close>,
  and one or two digits, where a digit is a character \<open>QChar::digitValue\<close> gives a value
  to; among the characters of Latin-1 these are the ten digits and the superscripts one,
  two and three (\<open>0xB9\<close>, \<open>0xB2\<close>, \<open>0xB3\<close>). It then replaces every marker of the lowest
  number in the string, and no other. A string without a marker is returned as it is.
  A chain \<open>s.arg(a).arg(b)\<close> so reads the text of \<open>a\<close> for markers when it places \<open>b\<close>.
\<close>

datatype piece = Text char | Marker nat bool string

definition digitValue :: "char \<Rightarrow> nat option" where
  "digitValue c =
     (if isDigit c then Some (of_char c - 48)
      else if c = CHR 0xB9 then Some 1
      else if c = CHR 0xB2 then Some 2
      else if c = CHR 0xB3 then Some 3
      else None)"

text \<open>
  The number of a marker and how many characters its digits take, for the text after the
  percent sign and the \<open>L\<close>; then the same with the \<open>L\<close>.
\<close>

definition escapeDigits :: "string \<Rightarrow> (nat \<times> nat) option" where
  "escapeDigits s =
     (case s of
        [] \<Rightarrow> None
      | d # t \<Rightarrow>
          (case digitValue d of
             None \<Rightarrow> None
           | Some escape \<Rightarrow>
               (case t of
                  [] \<Rightarrow> Some (escape, 1)
                | d2 # u \<Rightarrow>
                    (case digitValue d2 of
                       None \<Rightarrow> Some (escape, 1)
                     | Some next_escape \<Rightarrow> Some (10 * escape + next_escape, 2)))))"

definition escapeAt :: "string \<Rightarrow> (nat \<times> bool \<times> nat) option" where
  "escapeAt s =
     (if s \<noteq> [] \<and> hd s = CHR ''L''
      then map_option (\<lambda>(escape, k). (escape, True, Suc k)) (escapeDigits (tl s))
      else map_option (\<lambda>(escape, k). (escape, False, k)) (escapeDigits s))"

text \<open>The string as its markers and the characters between them.\<close>

function scan :: "string \<Rightarrow> piece list" where
  "scan [] = []"
| "scan (c # s) =
     (if c = CHR ''%'' then
        (case escapeAt s of
           Some (escape, locale_arg, k) \<Rightarrow> Marker escape locale_arg (c # take k s) # scan (drop k s)
         | None \<Rightarrow> Text c # scan s)
      else Text c # scan s)"
  by pat_completeness auto
termination
  by (relation "measure length") auto

declare scan.simps [simp del]

fun escapeOf :: "piece \<Rightarrow> nat option" where
  "escapeOf (Text c) = None"
| "escapeOf (Marker escape locale_arg raw) = Some escape"

text \<open>\<open>findArgEscapes\<close>: the lowest number of a marker, when there is a marker.\<close>

definition min_escape :: "piece list \<Rightarrow> nat option" where
  "min_escape pieces =
     (case List.map_filter escapeOf pieces of
        [] \<Rightarrow> None
      | escape # escapes \<Rightarrow> Some (fold min escapes escape))"

text \<open>
  \<open>replaceArgEscapes\<close>: the markers of the lowest number become \<open>arg\<close>, or \<open>locale_arg\<close>
  where the marker has the \<open>L\<close>; the field width is 0 in every call of this program.
\<close>

fun pieceText :: "nat \<Rightarrow> string \<Rightarrow> string \<Rightarrow> piece \<Rightarrow> string" where
  "pieceText m a la (Text c) = [c]"
| "pieceText m a la (Marker escape locale_arg raw) =
     (if escape = m then (if locale_arg then la else a) else raw)"

definition replaceArgEscapes :: "string \<Rightarrow> string \<Rightarrow> string \<Rightarrow> string" where
  "replaceArgEscapes s a la =
     (case min_escape (scan s) of
        None \<Rightarrow> s
      | Some m \<Rightarrow> concat (map (pieceText m a la) (scan s)))"

text \<open>
  \<open>QString::arg(const QString&)\<close> and \<open>QString::arg(int)\<close>. The number is written in
  decimal; for a marker with \<open>L\<close> Qt writes it as the default locale does, which is taken
  to be the C locale, so that it is the same text.
\<close>

definition argString :: "string \<Rightarrow> string \<Rightarrow> string" where
  "argString s a = replaceArgEscapes s a a"

definition argInt :: "string \<Rightarrow> int \<Rightarrow> string" where
  "argInt s a = replaceArgEscapes s (numberInt a) (numberInt a)"

text \<open>
  The \<open>while\<close> loop of \<open>components\<close> that makes the name unique: as long as a component
  of the catalogue has the name, the next candidate is the sanitized
  \<open>QString("%1_%2").arg(componentName).arg(count)\<close>. The first \<open>arg\<close> puts the raw name
  for \<open>%1\<close>; the second puts the counter for the markers of the lowest number in the result,
  which are the \<open>%2\<close> of the format when the raw name holds no marker of a number up to 2.
\<close>

definition nameTaken :: "Components \<Rightarrow> string \<Rightarrow> bool" where
  "nameTaken m uniqueComponentName = (find (\<lambda>c. c_name (snd c) = uniqueComponentName) m \<noteq> None)"

definition countedName :: "string \<Rightarrow> nat \<Rightarrow> string" where
  "countedName componentName count =
     validFileName (argInt (argString ''%1_%2'' componentName) (int count))"

text \<open>The two replacements of \<open>validFileName\<close> on one character.\<close>

definition sanitizeChar :: "char \<Rightarrow> char" where
  "sanitizeChar c = (let c1 = (if reFileChars c then CHR ''_'' else c) in if reNotWord c1 then CHR ''_'' else c1)"

subsection \<open>Facts about the sanitizer\<close>

lemma replaceRe_twice:
  "replaceRe reNotWord (CHR ''_'') (replaceRe reFileChars (CHR ''_'') s) = map sanitizeChar s"
  by (simp add: replaceRe_def sanitizeChar_def Let_def)

lemma lower_table: "isLower c \<longleftrightarrow> c \<in> set ''abcdefghijklmnopqrstuvwxyz''"
proof -
  have "c \<in> set ''abcdefghijklmnopqrstuvwxyz'' \<longleftrightarrow> (of_char c :: nat) \<in> of_char ` set ''abcdefghijklmnopqrstuvwxyz''"
    by (simp only: inj_image_mem_iff[OF inj_of_char])
  also have "(of_char ` set ''abcdefghijklmnopqrstuvwxyz'' :: nat set) = set [97..<123]"
    by simp
  also have "(of_char c :: nat) \<in> set [97..<123] \<longleftrightarrow> 97 \<le> (of_char c :: nat) \<and> (of_char c :: nat) \<le> 122"
    by (simp only: set_upt atLeastLessThan_iff) arith
  finally show ?thesis by (simp add: isLower_def less_eq_char_def)
qed

lemma upper_table: "isUpper c \<longleftrightarrow> c \<in> set ''ABCDEFGHIJKLMNOPQRSTUVWXYZ''"
proof -
  have "c \<in> set ''ABCDEFGHIJKLMNOPQRSTUVWXYZ'' \<longleftrightarrow> (of_char c :: nat) \<in> of_char ` set ''ABCDEFGHIJKLMNOPQRSTUVWXYZ''"
    by (simp only: inj_image_mem_iff[OF inj_of_char])
  also have "(of_char ` set ''ABCDEFGHIJKLMNOPQRSTUVWXYZ'' :: nat set) = set [65..<91]"
    by simp
  also have "(of_char c :: nat) \<in> set [65..<91] \<longleftrightarrow> 65 \<le> (of_char c :: nat) \<and> (of_char c :: nat) \<le> 90"
    by (simp only: set_upt atLeastLessThan_iff) arith
  finally show ?thesis by (simp add: isUpper_def less_eq_char_def)
qed

lemma lower_not_upper: "isLower c \<Longrightarrow> \<not> isUpper c"
  by (simp add: isLower_def isUpper_def less_eq_char_def)

lemma toUpper_isUpper: "isUpper c \<Longrightarrow> toUpper c = c"
proof -
  assume "isUpper c"
  then have "c \<notin> set ''abcdefghijklmnopqrstuvwxyz''"
    using lower_not_upper lower_table by blast
  then have "map_of (zip ''abcdefghijklmnopqrstuvwxyz'' ''ABCDEFGHIJKLMNOPQRSTUVWXYZ'') c = None"
    by (subst map_of_zip_is_None) simp_all
  then show ?thesis by (simp only: toUpper_def option.case)
qed

lemma toUpper_isLower: "isLower c \<Longrightarrow> isUpper (toUpper c)"
proof -
  assume "isLower c"
  then have "c \<in> set ''abcdefghijklmnopqrstuvwxyz''"
    using lower_table by blast
  then obtain u where u: "map_of (zip ''abcdefghijklmnopqrstuvwxyz'' ''ABCDEFGHIJKLMNOPQRSTUVWXYZ'') c = Some u"
    using map_of_zip_is_Some [of "''abcdefghijklmnopqrstuvwxyz''" "''ABCDEFGHIJKLMNOPQRSTUVWXYZ''" c]
    by fastforce
  then have "u \<in> set ''ABCDEFGHIJKLMNOPQRSTUVWXYZ''"
    by (meson map_of_SomeD set_zip_rightD)
  then have "isUpper u" using upper_table by blast
  then show ?thesis using u by (simp only: toUpper_def option.case)
qed

lemma toUpper_letter: "isLower c \<or> isUpper c \<Longrightarrow> isUpper (toUpper c)"
  using toUpper_isLower toUpper_isUpper by force

lemma reFileChars_reNotWord: "reFileChars c \<Longrightarrow> reNotWord c"
  unfolding reFileChars_def isSpace_def
  by (auto simp: reNotWord_def isLower_def isUpper_def isDigit_def)

lemma sanitizeChar_eq: "sanitizeChar c = (if reNotWord c then CHR ''_'' else c)"
  using reFileChars_reNotWord [of c]
  by (auto simp: sanitizeChar_def Let_def reNotWord_def)

lemma sanitizeChar_word: "\<not> reNotWord (sanitizeChar c)"
  by (simp add: sanitizeChar_eq) (simp add: reNotWord_def)

lemma sanitizeChar_id: "\<not> reNotWord c \<Longrightarrow> sanitizeChar c = c"
  by (simp add: sanitizeChar_eq)

lemma sanitize_suffix: "map sanitizeChar FIGMA_SUFFIX = FIGMA_SUFFIX"
  by (simp add: FIGMA_SUFFIX_def sanitizeChar_eq reNotWord_def isLower_def isUpper_def isDigit_def)

lemma validFileName_Cons:
  "validFileName (a # as) =
     (if isLower (sanitizeChar a) \<or> isUpper (sanitizeChar a) then [toUpper (sanitizeChar a)]
      else [CHR ''C'', sanitizeChar a]) @ map sanitizeChar as @ FIGMA_SUFFIX"
  by (simp add: validFileName_def replaceRe_twice sanitize_suffix Let_def)
     (simp add: toUpper_def)

lemma validFileName_Nil: "validFileName [] = []"
  by (simp add: validFileName_def)

lemma validFileName_word: "c \<in> set (validFileName n) \<Longrightarrow> \<not> reNotWord c"
proof (cases n)
  case Nil
  then show "c \<in> set (validFileName n) \<Longrightarrow> \<not> reNotWord c" by (simp add: validFileName_Nil)
next
  case (Cons a as)
  assume "c \<in> set (validFileName n)"
  then consider "c = toUpper (sanitizeChar a) \<and> (isLower (sanitizeChar a) \<or> isUpper (sanitizeChar a))"
    | "c = CHR ''C''" | "c = sanitizeChar a" | "c \<in> set (map sanitizeChar as)" | "c \<in> set FIGMA_SUFFIX"
    unfolding Cons validFileName_Cons by (auto split: if_splits)
  then show "\<not> reNotWord c"
  proof cases
    case 1
    then have "isUpper c" using toUpper_letter by blast
    then show ?thesis by (simp add: reNotWord_def)
  next
    case 2
    then show ?thesis by (simp add: reNotWord_def isUpper_def)
  next
    case 3
    then show ?thesis by (simp add: sanitizeChar_word)
  next
    case 4
    then show ?thesis by (auto simp: sanitizeChar_word)
  next
    case 5
    then show ?thesis by (auto simp: FIGMA_SUFFIX_def reNotWord_def isLower_def)
  qed
qed

lemma validFileName_head:
  "n \<noteq> [] \<Longrightarrow> \<exists>h t. validFileName n = h # t @ FIGMA_SUFFIX \<and> isUpper h"
proof (cases n)
  case Nil
  then show "n \<noteq> [] \<Longrightarrow> ?thesis" by simp
next
  case (Cons a as)
  show ?thesis
  proof (cases "isLower (sanitizeChar a) \<or> isUpper (sanitizeChar a)")
    case True
    then show ?thesis unfolding Cons validFileName_Cons using toUpper_letter by auto
  next
    case False
    then have "validFileName (a # as) = CHR ''C'' # (sanitizeChar a # map sanitizeChar as) @ FIGMA_SUFFIX"
      unfolding validFileName_Cons by simp
    moreover have "isUpper (CHR ''C'')" by (simp add: isUpper_def)
    ultimately show ?thesis unfolding Cons by blast
  qed
qed

lemma validFileName_again:
  assumes "n \<noteq> []"
  shows "validFileName (validFileName n) = validFileName n @ FIGMA_SUFFIX"
proof -
  from validFileName_head [OF assms] obtain h t
    where r: "validFileName n = h # t @ FIGMA_SUFFIX" and h: "isUpper h" by blast
  have w: "\<And>c. c \<in> set (validFileName n) \<Longrightarrow> sanitizeChar c = c"
    using validFileName_word sanitizeChar_id by blast
  have "sanitizeChar h = h" using w r by simp
  moreover have "map sanitizeChar (t @ FIGMA_SUFFIX) = t @ FIGMA_SUFFIX"
    using w r by (simp add: map_idI)
  ultimately have "validFileName (h # t @ FIGMA_SUFFIX) = h # t @ FIGMA_SUFFIX @ FIGMA_SUFFIX"
    unfolding validFileName_Cons using h toUpper_isUpper by simp
  then show ?thesis using r by simp
qed

lemma endsWith_append: "endsWith (s @ suf) suf"
  by (simp add: endsWith_def)

lemma validFileName_startsWithLetter: "n \<noteq> [] \<Longrightarrow> startsWithLetter (validFileName n)"
  using validFileName_head [of n] by (auto simp: startsWithLetter_def)

lemma validFileName_endsWith: "n \<noteq> [] \<Longrightarrow> endsWith (validFileName n) FIGMA_SUFFIX"
proof -
  assume "n \<noteq> []"
  then obtain h t where "validFileName n = (h # t) @ FIGMA_SUFFIX"
    using validFileName_head [of n] by auto
  then show ?thesis by (simp only: endsWith_append)
qed


subsection \<open>The decimal text and the counted names\<close>

lemma digitChar_inj: "a < 10 \<Longrightarrow> b < 10 \<Longrightarrow> digitChar a = digitChar b \<Longrightarrow> a = b"
proof -
  assume a: "a < 10" and b: "b < 10" and e: "digitChar a = digitChar b"
  have d: "distinct ''0123456789''" by simp
  have "a < length ''0123456789''" "b < length ''0123456789''" using a b by simp_all
  then show "a = b" using e d unfolding digitChar_def by (simp only: nth_eq_iff_index_eq)
qed

lemma digitChar_isDigit: "d < 10 \<Longrightarrow> isDigit (digitChar d)"
proof -
  assume "d < 10"
  then have "d < length ''0123456789''" by simp
  then have "digitChar d \<in> set ''0123456789''" unfolding digitChar_def by (rule nth_mem)
  moreover have "\<forall>c \<in> set ''0123456789''. isDigit c" by (simp add: isDigit_def)
  ultimately show ?thesis by blast
qed

lemma decimal_length: "0 < length (decimal n)"
  by (subst decimal.simps) simp

lemma decimal_inj: "decimal n = decimal m \<Longrightarrow> n = m"
proof (induction n arbitrary: m rule: decimal.induct)
  case (1 n)
  show ?case
  proof (cases "n < 10")
    case True
    then have n: "decimal n = [digitChar n]" by (subst decimal.simps) simp
    show ?thesis
    proof (cases "m < 10")
      case m: True
      then have "decimal m = [digitChar m]" by (subst decimal.simps) simp
      then show ?thesis using n "1.prems" True m digitChar_inj by simp
    next
      case False
      then have "decimal m = decimal (m div 10) @ [digitChar (m mod 10)]" by (subst decimal.simps) simp
      then have "length (decimal m) > 1" using decimal_length [of "m div 10"] by simp
      then show ?thesis using n "1.prems" by simp
    qed
  next
    case False
    then have n: "decimal n = decimal (n div 10) @ [digitChar (n mod 10)]" by (subst decimal.simps) simp
    show ?thesis
    proof (cases "m < 10")
      case True
      then have "decimal m = [digitChar m]" by (subst decimal.simps) simp
      moreover have "length (decimal n) > 1" using n decimal_length [of "n div 10"] by simp
      ultimately show ?thesis using "1.prems" by simp
    next
      case m: False
      then have "decimal m = decimal (m div 10) @ [digitChar (m mod 10)]" by (subst decimal.simps) simp
      then have "decimal (n div 10) = decimal (m div 10)" "digitChar (n mod 10) = digitChar (m mod 10)"
        using n "1.prems" by simp_all
      then have "n div 10 = m div 10" "n mod 10 = m mod 10"
        using "1.IH" [OF False] digitChar_inj [of "n mod 10" "m mod 10"] by simp_all
      then show ?thesis by (metis div_mult_mod_eq)
    qed
  qed
qed

lemma decimal_digits: "c \<in> set (decimal n) \<Longrightarrow> isDigit c"
proof (induction n rule: decimal.induct)
  case (1 n)
  show ?case
  proof (cases "n < 10")
    case True
    then have "decimal n = [digitChar n]" by (subst decimal.simps) simp
    then show ?thesis using "1.prems" True digitChar_isDigit by simp
  next
    case False
    then have "decimal n = decimal (n div 10) @ [digitChar (n mod 10)]" by (subst decimal.simps) simp
    then show ?thesis using "1.prems" "1.IH" [OF False] digitChar_isDigit [of "n mod 10"] by auto
  qed
qed

lemma sanitize_decimal: "map sanitizeChar (decimal n) = decimal n"
proof (rule map_idI)
  fix c assume "c \<in> set (decimal n)"
  then have "isDigit c" by (rule decimal_digits)
  then show "sanitizeChar c = c" by (simp add: sanitizeChar_eq reNotWord_def)
qed

subsection \<open>Facts about the place markers\<close>

lemma fold_min_mem: "fold min es e \<in> set (e # es)"
proof (induction es arbitrary: e)
  case Nil
  show ?case by simp
next
  case (Cons x es)
  have "fold min es (min x e) \<in> set (min x e # es)" by (rule Cons.IH)
  moreover have "min x e = x \<or> min x e = e" by (simp add: min_def)
  ultimately show ?case by auto
qed

lemma min_escape_mem:
  assumes "min_escape pieces = Some m"
  shows "\<exists>locale_arg raw. Marker m locale_arg raw \<in> set pieces"
proof -
  from assms obtain e es where es: "List.map_filter escapeOf pieces = e # es" and m: "m = fold min es e"
    by (auto simp: min_escape_def split: list.splits)
  have "m \<in> set (List.map_filter escapeOf pieces)"
    unfolding es m by (rule fold_min_mem)
  then obtain x where x: "x \<in> set pieces" "escapeOf x = Some m"
    by (auto simp: map_filter_def)
  from x(2) obtain l r where "x = Marker m l r"
    by (cases x) auto
  with x(1) show ?thesis by blast
qed

lemma min_escape_marker:
  "Marker escape locale_arg raw \<in> set pieces \<Longrightarrow> min_escape pieces \<noteq> None"
proof -
  assume "Marker escape locale_arg raw \<in> set pieces"
  then have "escape \<in> set (List.map_filter escapeOf pieces)"
    by (force simp: map_filter_def)
  then show ?thesis
    by (auto simp: min_escape_def split: list.splits)
qed

lemma scan_format_marker: "\<exists>escape locale_arg raw. Marker escape locale_arg raw \<in> set (scan (n @ ''_%2''))"
proof (induction n)
  case Nil
  have h: "scan ''_%2'' = [Text (CHR ''_''), Marker 2 False ''%2'']"
    by code_simp
  show ?case unfolding append_Nil h by auto
next
  case (Cons c n)
  then show ?case by (auto simp: scan.simps split: option.splits)
qed

lemma scan_format: "scan ''%1_%2'' = [Marker 1 False ''%1'', Text (CHR ''_''), Marker 2 False ''%2'']"
  by code_simp

lemma argString_format: "argString ''%1_%2'' componentName = componentName @ ''_%2''"
  unfolding argString_def replaceArgEscapes_def scan_format
  by (simp add: min_escape_def map_filter_def)

text \<open>The text of pieces that hold no marker of the number does not depend on the argument.\<close>

lemma pieceText_other:
  "\<forall>locale_arg raw. p \<noteq> Marker m locale_arg raw \<Longrightarrow> pieceText m a la p = pieceText m b lb p"
  by (cases p) auto

lemma pieceText_length:
  "length a \<le> length b \<Longrightarrow> length (pieceText m a a p) \<le> length (pieceText m b b p)"
  by (cases p) auto

lemma render_length:
  "length a \<le> length b \<Longrightarrow>
   length (concat (map (pieceText m a a) pieces)) \<le> length (concat (map (pieceText m b b) pieces))"
proof (induction pieces)
  case Nil
  show ?case by simp
next
  case (Cons p pieces)
  then show ?case using pieceText_length [of a b m p] by simp
qed

text \<open>
  A string with a marker, filled with a number: the text before the first marker of the
  lowest number, the number, and a rest whose length grows with that of the number.
\<close>

lemma replaceArgEscapes_split:
  assumes "min_escape (scan s) \<noteq> None"
  shows "\<exists>P R. \<forall>a. replaceArgEscapes s a a = P @ a @ R a \<and>
                   (\<forall>b. length a \<le> length b \<longrightarrow> length (R a) \<le> length (R b))"
proof -
  from assms obtain m where m: "min_escape (scan s) = Some m" by auto
  then obtain locale_arg raw where "Marker m locale_arg raw \<in> set (scan s)"
    using min_escape_mem by blast
  then have "\<exists>x\<in>set (scan s). \<exists>l r. x = Marker m l r" by blast
  from split_list_first_prop [OF this]
  obtain pre x post where sp: "scan s = pre @ x # post" and x: "\<exists>l r. x = Marker m l r"
    and pre: "\<forall>y\<in>set pre. \<not> (\<exists>l r. y = Marker m l r)"
    by blast
  let ?P = "concat (map (pieceText m [] []) pre)"
  let ?R = "\<lambda>a. concat (map (pieceText m a a) post)"
  have P: "concat (map (pieceText m a a) pre) = ?P" for a
    by (rule arg_cong [where f = concat], rule map_cong [OF refl], rule pieceText_other) (use pre in auto)
  have X: "pieceText m a a x = a" for a
    using x by auto
  have eq: "replaceArgEscapes s a a = ?P @ a @ ?R a" for a
    unfolding replaceArgEscapes_def m using P [of a] by (simp add: sp X)
  have len: "length a \<le> length b \<Longrightarrow> length (?R a) \<le> length (?R b)" for a b
    by (rule render_length)
  show ?thesis
  proof (intro exI allI conjI impI)
    fix a show "replaceArgEscapes s a a = ?P @ a @ ?R a" by (rule eq)
  next
    fix a b :: string assume "length a \<le> length b"
    then show "length (?R a) \<le> length (?R b)" by (rule len)
  qed
qed

text \<open>The sanitized name is the sanitized characters of the name between a head and the suffix.\<close>

lemma validFileName_sanitized:
  assumes "validFileName x = validFileName y" "x \<noteq> []" "y \<noteq> []"
    and "hd x = hd y \<or> (isDigit (hd x) \<and> isDigit (hd y))"
  shows "map sanitizeChar x = map sanitizeChar y"
proof -
  obtain a as where x: "x = a # as" using assms(2) by (cases x) auto
  obtain b bs where y: "y = b # bs" using assms(3) by (cases y) auto
  have dig: "isDigit c \<Longrightarrow> sanitizeChar c = c \<and> \<not> isLower c \<and> \<not> isUpper c" for c
    by (auto simp: sanitizeChar_eq reNotWord_def isDigit_def isLower_def isUpper_def less_eq_char_def)
  from assms(4) show ?thesis
  proof
    assume "hd x = hd y"
    then have "a = b" by (simp add: x y)
    then show ?thesis
      using assms(1) unfolding x y validFileName_Cons by (simp split: if_splits)
  next
    assume "isDigit (hd x) \<and> isDigit (hd y)"
    then have "isDigit a" "isDigit b" by (simp_all add: x y)
    then show ?thesis
      using assms(1) dig [of a] dig [of b] unfolding x y validFileName_Cons by simp
  qed
qed

lemma decimal_not_Nil: "decimal n \<noteq> []"
  using decimal_length [of n] by auto

lemma decimal_hd: "isDigit (hd (decimal n))"
  by (rule decimal_digits [of _ n]) (simp add: decimal_not_Nil)

lemma filled_inj:
  assumes split: "\<forall>a. f a = P @ a @ R a \<and> (\<forall>b. length a \<le> length b \<longrightarrow> length (R a) \<le> length (R b))"
    and eq: "validFileName (f (decimal c)) = validFileName (f (decimal d))"
  shows "c = d"
proof -
  let ?c = "decimal c" and ?d = "decimal d"
  have fc: "f ?c = P @ ?c @ R ?c" and fd: "f ?d = P @ ?d @ R ?d"
    using split by simp_all
  have hd: "hd (f ?c) = hd (f ?d) \<or> (isDigit (hd (f ?c)) \<and> isDigit (hd (f ?d)))"
    by (cases P) (simp_all add: fc fd decimal_not_Nil decimal_hd)
  have "map sanitizeChar (f ?c) = map sanitizeChar (f ?d)"
    by (rule validFileName_sanitized [OF eq _ _ hd]) (simp_all add: fc fd decimal_not_Nil)
  then have m: "?c @ map sanitizeChar (R ?c) = ?d @ map sanitizeChar (R ?d)"
    by (simp add: fc fd sanitize_decimal)
  then have len: "length ?c + length (R ?c) = length ?d + length (R ?d)"
    by (metis length_append length_map)
  have "length ?c = length ?d"
  proof (rule ccontr)
    assume "length ?c \<noteq> length ?d"
    then consider "length ?c < length ?d" | "length ?d < length ?c" by linarith
    then show False
    proof cases
      case 1
      then have "length (R ?c) \<le> length (R ?d)" using split by simp
      with 1 len show False by simp
    next
      case 2
      then have "length (R ?d) \<le> length (R ?c)" using split by simp
      with 2 len show False by simp
    qed
  qed
  with m have "?c = ?d" by simp
  then show ?thesis by (rule decimal_inj)
qed

lemma countedName_inj: "countedName n c = countedName n d \<Longrightarrow> c = d"
proof -
  assume e: "countedName n c = countedName n d"
  have "min_escape (scan (n @ ''_%2'')) \<noteq> None"
    using scan_format_marker [of n] min_escape_marker by blast
  from replaceArgEscapes_split [OF this]
  obtain P R where s: "\<forall>a. replaceArgEscapes (n @ ''_%2'') a a = P @ a @ R a \<and>
                   (\<forall>b. length a \<le> length b \<longrightarrow> length (R a) \<le> length (R b))"
    by blast
  have "validFileName (replaceArgEscapes (n @ ''_%2'') (decimal c) (decimal c)) =
        validFileName (replaceArgEscapes (n @ ''_%2'') (decimal d) (decimal d))"
    using e by (simp add: countedName_def argString_format argInt_def numberInt_def)
  with s show ?thesis by (rule filled_inj)
qed

text \<open>A raw name without a percent sign: the candidate is the name, an underscore and the counter.\<close>

lemma scan_plain: "CHR ''%'' \<notin> set n \<Longrightarrow> scan (n @ s) = map Text n @ scan s"
  by (induction n) (auto simp: scan.simps)

lemma countedName_form:
  assumes "CHR ''%'' \<notin> set componentName"
  shows "countedName componentName count = validFileName (componentName @ ''_'' @ decimal count)"
proof -
  have f: "scan ''_%2'' = [Text (CHR ''_''), Marker 2 False ''%2'']"
    by code_simp
  have sc: "scan (componentName @ ''_%2'') = map Text componentName @ [Text (CHR ''_''), Marker 2 False ''%2'']"
    by (simp add: scan_plain [OF assms] f)
  have none: "List.map_filter escapeOf (map Text componentName @ ps) = List.map_filter escapeOf ps" for ps
    by (induction componentName) (simp_all add: map_filter_simps)
  have me: "min_escape (scan (componentName @ ''_%2'')) = Some 2"
    unfolding sc min_escape_def none by (simp add: map_filter_simps)
  have plain: "concat (map (pieceText m a la \<circ> Text) componentName) = componentName" for m a la
    by (induction componentName) simp_all
  have "replaceArgEscapes (componentName @ ''_%2'') a a = componentName @ ''_'' @ a" for a
    unfolding replaceArgEscapes_def me by (simp add: sc plain)
  then show ?thesis
    by (simp add: countedName_def argString_format argInt_def numberInt_def)
qed


text \<open>The names of the catalogue, and how many of them are candidates still to come.\<close>

definition names :: "Components \<Rightarrow> string set" where
  "names m = (\<lambda>c. c_name (snd c)) ` set m"

lemma nameTaken_iff: "nameTaken m u \<longleftrightarrow> u \<in> names m"
  unfolding nameTaken_def names_def find_None_iff by force

definition pending :: "Components \<Rightarrow> string \<Rightarrow> nat \<Rightarrow> nat" where
  "pending m n c = card (names m \<inter> countedName n ` {c..})"

lemma pending_step:
  "pending m n (Suc c) + (if countedName n c \<in> names m then 1 else 0) = pending m n c"
proof -
  have fin: "finite (names m \<inter> countedName n ` {Suc c..})" by (simp add: names_def)
  have notin: "countedName n c \<notin> countedName n ` {Suc c..}"
    using countedName_inj by fastforce
  have split: "countedName n ` {c..} = insert (countedName n c) (countedName n ` {Suc c..})"
  proof -
    have "{c..} = insert c {Suc c..}" by auto
    then show ?thesis by (metis image_insert)
  qed
  show ?thesis
  proof (cases "countedName n c \<in> names m")
    case True
    then have "names m \<inter> countedName n ` {c..} = insert (countedName n c) (names m \<inter> countedName n ` {Suc c..})"
      unfolding split by blast
    then show ?thesis using True fin notin by (simp add: pending_def)
  next
    case False
    then have "names m \<inter> countedName n ` {c..} = names m \<inter> countedName n ` {Suc c..}"
      unfolding split by blast
    then show ?thesis using False by (simp add: pending_def)
  qed
qed

text \<open>
  The loop ends: the counted names of one raw name are pairwise different, so each round
  the catalogue holds one name less among the candidates still to come.
\<close>

function uniqueName :: "Components \<Rightarrow> string \<Rightarrow> string \<Rightarrow> nat \<Rightarrow> string" where
  "uniqueName m componentName uniqueComponentName count =
     (if nameTaken m uniqueComponentName
      then uniqueName m componentName (countedName componentName count) (count + 1)
      else uniqueComponentName)"
  by pat_completeness auto

termination
proof (relation "measure (\<lambda>(m, n, u, c). (if u \<in> names m then 1 else 0) + 2 * pending m n c)")
  show "wf (measure (\<lambda>(m, n, u, c). (if u \<in> names m then 1 else 0) + 2 * pending m n c))" by simp
next
  fix m n u c
  assume "nameTaken m u"
  then have u: "u \<in> names m" by (simp add: nameTaken_iff)
  show "((m, n, countedName n c, c + 1), (m, n, u, c)) \<in> measure (\<lambda>(m, n, u, c). (if u \<in> names m then 1 else 0) + 2 * pending m n c)"
    using u pending_step [of m n c] by (auto split: if_splits)
qed


declare uniqueName.simps [simp del]

text \<open>
  The body of the registration loop of \<open>components\<close>, in its two halves. The first one
  fetches the body of a component that the document does not hold: \<open>nodes\<close> is the lookup
  callback, and \<open>fromJson\<close> stands for \<open>QJsonDocument::fromJson\<close> (\<open>None\<close> for a parse
  error). The second one makes the name unique and inserts the component.
\<close>

definition receivedObjects :: "json \<Rightarrow> string \<Rightarrow> (string \<rightharpoonup> jobject)" where
  "receivedObjects doc key =
     getObjectsByType
       (toObject (jget (toObject (jget (toObject (jget (toObject doc) ''nodes'')) key)) ''document''))
       ''COMPONENT''"

definition fetchComponent ::
  "(string \<Rightarrow> json option) \<Rightarrow> (string \<Rightarrow> string) \<Rightarrow> string \<Rightarrow> (string \<rightharpoonup> jobject)
     \<Rightarrow> exception + (string \<rightharpoonup> jobject)" where
  "fetchComponent fromJson nodes key componentObjects =
     (if componentObjects key = None then
        let response = nodes key in
        if response = [] then ERR [toStr [''Component not found'', key, ''for'']]
        else
          case fromJson response of
            Some doc \<Rightarrow>
              (case receivedObjects doc key key of
                 None \<Rightarrow> ERR [toStr [''Unrecognized component'', key]]
               | Some body \<Rightarrow> Inr (componentObjects(key \<mapsto> body)))
          | None \<Rightarrow> ERR [toStr [''Invalid component'', key]]
      else Inr componentObjects)"

definition insertComponent ::
  "jobject \<Rightarrow> string \<Rightarrow> (string \<rightharpoonup> jobject) \<Rightarrow> Components \<Rightarrow> Components" where
  "insertComponent components key componentObjects m =
     (let c = toObject (jget components key);
          componentName = toString (jget c ''name'');
          uniqueComponentName = uniqueName m componentName (validFileName componentName) 1
      in AList.update key
           \<lparr>c_name = uniqueComponentName,
            c_id = key,
            c_key = toString (jget c ''key''),
            c_description = toString (jget c ''description''),
            c_object = (case componentObjects key of Some body \<Rightarrow> body | None \<Rightarrow> [])\<rparr>
           m)"

text \<open>
  The loop over \<open>components.keys()\<close>. The catalogue is declared before the \<open>try\<close> block and
  returned after it, so an exception leaves in it what the earlier rounds inserted; the
  loop returns the catalogue together with the exception that ended it, if any.
\<close>

fun registerAll ::
  "(string \<Rightarrow> json option) \<Rightarrow> (string \<Rightarrow> string) \<Rightarrow> jobject \<Rightarrow> string list
     \<Rightarrow> (string \<rightharpoonup> jobject) \<Rightarrow> Components \<Rightarrow> Components \<times> exception option" where
  "registerAll fromJson nodes components [] componentObjects m = (m, None)"
| "registerAll fromJson nodes components (key # rest) componentObjects m =
     (case fetchComponent fromJson nodes key componentObjects of
        Inl e \<Rightarrow> (m, Some e)
      | Inr componentObjects' \<Rightarrow>
          registerAll fromJson nodes components rest componentObjects'
            (insertComponent components key componentObjects' m))"

text \<open>
  The entry point. The calls of the error callback \<open>err\<close> are returned as the list of its
  arguments \<open>(message, isFatal)\<close>.
\<close>

definition components ::
  "(string \<Rightarrow> json option) \<Rightarrow> jobject \<Rightarrow> (string \<Rightarrow> string) \<Rightarrow> Components \<times> (string \<times> bool) list" where
  "components fromJson project nodes =
     (let componentObjects = getObjectsByType (toObject (jget project ''document'')) ''COMPONENT'';
          components = toObject (jget project ''components'');
          (m, caught) = registerAll fromJson nodes components (keys components) componentObjects []
      in (m, case caught of None \<Rightarrow> [] | Some e \<Rightarrow> [(what e, True)]))"

section \<open>Facts about the component catalogue\<close>

text \<open>The catalogue's invariant: no two components have the same name.\<close>

definition distinctNames :: "Components \<Rightarrow> bool" where
  "distinctNames m = distinct (map (\<lambda>c. c_name (snd c)) m)"

text \<open>
  What the specification calls a failing registration: the document holds no body for the
  component, and the lookup returns nothing, or what it returns does not parse, or the
  response lacks the body. \<open>failureIssue\<close> is the message of that failure.
\<close>

definition registrationFails ::
  "(string \<Rightarrow> json option) \<Rightarrow> (string \<Rightarrow> string) \<Rightarrow> (string \<rightharpoonup> jobject) \<Rightarrow> string \<Rightarrow> bool" where
  "registrationFails fromJson nodes componentObjects key =
     (componentObjects key = None \<and>
      (nodes key = [] \<or>
       (case fromJson (nodes key) of None \<Rightarrow> True | Some doc \<Rightarrow> receivedObjects doc key key = None)))"

definition failureIssue :: "(string \<Rightarrow> json option) \<Rightarrow> (string \<Rightarrow> string) \<Rightarrow> string \<Rightarrow> string" where
  "failureIssue fromJson nodes key =
     (if nodes key = [] then ''Component not found '' @ key @ '' for''
      else if fromJson (nodes key) = None then ''Invalid component '' @ key
      else ''Unrecognized component '' @ key)"

text \<open>
  Projects to run the registration on: two components of one name, a component without a
  body, and two components whose name is the place marker \<open>%1\<close>.
\<close>

definition twoButtons :: jobject where
  "twoButtons = [(''components'', JObject [(''1:1'', JObject [(''name'', JString ''Button'')]),
                                      (''2:2'', JObject [(''name'', JString ''Button'')])]),
           (''document'', JObject [(''children'', JArray [
                JObject [(''id'', JString ''1:1''), (''type'', JString ''COMPONENT'')],
                JObject [(''id'', JString ''2:2''), (''type'', JString ''COMPONENT'')]]),
                                   (''type'', JString ''DOCUMENT'')])]"

definition oneMissing :: jobject where
  "oneMissing = [(''components'', JObject [(''1:1'', JObject [(''name'', JString ''Button'')]),
                                           (''2:2'', JObject [(''name'', JString ''Icon'')])]),
           (''document'', JObject [(''children'', JArray [
                JObject [(''id'', JString ''1:1''), (''type'', JString ''COMPONENT'')]]),
                                   (''type'', JString ''DOCUMENT'')])]"

definition twoMarkers :: jobject where
  "twoMarkers = [(''components'', JObject [(''1:1'', JObject [(''name'', JString ''%1'')]),
                                      (''2:2'', JObject [(''name'', JString ''%1'')])]),
           (''document'', JObject [(''children'', JArray [
                JObject [(''id'', JString ''1:1''), (''type'', JString ''COMPONENT'')],
                JObject [(''id'', JString ''2:2''), (''type'', JString ''COMPONENT'')]]),
                                   (''type'', JString ''DOCUMENT'')])]"

subsection \<open>The unique name\<close>

lemma uniqueName_free: "\<not> nameTaken m (uniqueName m n u c)"
  by (induction m n u c rule: uniqueName.induct) (subst uniqueName.simps, simp)

lemma uniqueName_form:
  "uniqueName m n u c = u \<and> \<not> nameTaken m u \<or> (\<exists>k\<ge>c. uniqueName m n u c = countedName n k \<and> nameTaken m u)"
proof (induction m n u c rule: uniqueName.induct)
  case (1 m n u c)
  show ?case
  proof (cases "nameTaken m u")
    case False
    then show ?thesis by (subst uniqueName.simps) simp
  next
    case True
    then have eq: "uniqueName m n u c = uniqueName m n (countedName n c) (c + 1)"
      by (subst uniqueName.simps) simp
    from "1.IH" [OF True] show ?thesis
    proof
      assume "uniqueName m n (countedName n c) (c + 1) = countedName n c \<and> \<not> nameTaken m (countedName n c)"
      then show ?thesis using eq True by auto
    next
      assume "\<exists>k\<ge>c + 1. uniqueName m n (countedName n c) (c + 1) = countedName n k \<and> nameTaken m (countedName n c)"
      then obtain k where "k \<ge> c + 1" "uniqueName m n (countedName n c) (c + 1) = countedName n k" by blast
      then show ?thesis using eq True by (metis add_leD1)
    qed
  qed
qed

lemma names_update_subset: "names (AList.update k v m) \<subseteq> insert (c_name v) (names m)"
  by (induction m) (auto simp: names_def)

lemma distinctNames_update:
  "distinctNames m \<Longrightarrow> c_name v \<notin> names m \<Longrightarrow> distinctNames (AList.update k v m)"
proof (induction m)
  case Nil
  then show ?case by (simp add: distinctNames_def)
next
  case (Cons a m)
  obtain k' v' where a: "a = (k', v')" by (cases a)
  show ?case
  proof (cases "k' = k")
    case True
    then show ?thesis using Cons.prems a by (auto simp: distinctNames_def names_def)
  next
    case False
    have d: "distinctNames m" and n: "c_name v \<notin> names m" and ne: "c_name v' \<noteq> c_name v"
      and nin: "c_name v' \<notin> names m"
      using Cons.prems a by (auto simp: distinctNames_def names_def)
    have "c_name v' \<notin> names (AList.update k v m)"
      using names_update_subset [of k v m] nin ne by auto
    then show ?thesis using Cons.IH [OF d n] a False
      by (simp add: distinctNames_def names_def)
  qed
qed

lemma distinctNames_insertComponent:
  "distinctNames m \<Longrightarrow> distinctNames (insertComponent cs key componentObjects m)"
  unfolding insertComponent_def Let_def
  by (rule distinctNames_update) (simp_all add: uniqueName_free nameTaken_iff [symmetric])

lemma distinctNames_registerAll:
  "distinctNames m \<Longrightarrow> distinctNames (fst (registerAll fromJson nodes cs ks componentObjects m))"
proof (induction ks arbitrary: componentObjects m)
  case Nil
  then show ?case by simp
next
  case (Cons key rest)
  show ?case
  proof (cases "fetchComponent fromJson nodes key componentObjects")
    case (Inl e)
    then show ?thesis using Cons.prems by simp
  next
    case (Inr objs)
    then show ?thesis using Cons.IH [OF distinctNames_insertComponent [OF Cons.prems]] by simp
  qed
qed

lemma components_registerAll:
  "components fromJson project nodes =
     (fst (registerAll fromJson nodes (toObject (jget project ''components''))
             (keys (toObject (jget project ''components'')))
             (getObjectsByType (toObject (jget project ''document'')) ''COMPONENT'') []),
      case snd (registerAll fromJson nodes (toObject (jget project ''components''))
             (keys (toObject (jget project ''components'')))
             (getObjectsByType (toObject (jget project ''document'')) ''COMPONENT'') []) of
        None \<Rightarrow> [] | Some e \<Rightarrow> [(what e, True)])"
  by (simp add: components_def Let_def split: prod.splits)

lemma fetchComponent_fails:
  "registrationFails fromJson nodes objs key \<Longrightarrow>
     fetchComponent fromJson nodes key objs = Inl (mkException (failureIssue fromJson nodes key))"
  by (auto simp: registrationFails_def fetchComponent_def failureIssue_def ERR_def Let_def
           split: option.splits)

lemma fetchComponent_ok:
  "\<not> registrationFails fromJson nodes objs key \<Longrightarrow>
     \<exists>objs'. fetchComponent fromJson nodes key objs = Inr objs' \<and> objs' key \<noteq> None \<and>
             (\<forall>k. k \<noteq> key \<longrightarrow> objs' k = objs k)"
  by (auto simp: registrationFails_def fetchComponent_def Let_def split: option.splits)

lemma registrationFails_other:
  "(\<forall>k. k \<noteq> key' \<longrightarrow> objs' k = objs k) \<Longrightarrow> objs' key' \<noteq> None \<Longrightarrow>
     (registrationFails fromJson nodes objs' k \<longleftrightarrow> k \<noteq> key' \<and> registrationFails fromJson nodes objs k)"
  unfolding registrationFails_def by metis

lemma insertComponent_keys:
  "map fst (insertComponent cs key objs m) = (if key \<in> set (map fst m) then map fst m else map fst m @ [key])"
  by (simp add: insertComponent_def Let_def update_keys)

lemma registerAll_fails:
  assumes "\<forall>k\<in>set ks1. \<not> registrationFails fromJson nodes objs k"
    and "registrationFails fromJson nodes objs key"
    and "distinct (map fst m @ ks1 @ [key])"
  shows "snd (registerAll fromJson nodes cs (ks1 @ key # ks2) objs m)
           = Some (mkException (failureIssue fromJson nodes key)) \<and>
         map fst (fst (registerAll fromJson nodes cs (ks1 @ key # ks2) objs m)) = map fst m @ ks1"
  using assms
proof (induction ks1 arbitrary: objs m)
  case Nil
  then show ?case by (simp add: fetchComponent_fails)
next
  case (Cons k ks1)
  from Cons.prems(1) have "\<not> registrationFails fromJson nodes objs k" by simp
  then obtain objs' where f: "fetchComponent fromJson nodes k objs = Inr objs'"
    and k: "objs' k \<noteq> None" and o: "\<forall>k'. k' \<noteq> k \<longrightarrow> objs' k' = objs k'"
    using fetchComponent_ok by blast
  have 1: "\<forall>k'\<in>set ks1. \<not> registrationFails fromJson nodes objs' k'"
    using Cons.prems(1) registrationFails_other [OF o k] by simp
  have "key \<noteq> k" using Cons.prems(3) by auto
  then have 2: "registrationFails fromJson nodes objs' key"
    using Cons.prems(2) registrationFails_other [OF o k] by simp
  have keys: "map fst (insertComponent cs k objs' m) = map fst m @ [k]"
    using Cons.prems(3) by (simp add: insertComponent_keys)
  then have 3: "distinct (map fst (insertComponent cs k objs' m) @ ks1 @ [key])"
    using Cons.prems(3) by simp
  from Cons.IH [OF 1 2 3] show ?case using f keys by simp
qed

text \<open>
  The names of a catalogue built by \<open>components\<close> are pairwise different, and each
  registration keeps them so: the name given to a component is not the name of any
  component of the catalogue. When the sanitized raw name is taken and the raw name holds
  no percent sign, the name given is the sanitized form of the raw name, an underscore and
  a counter from 1 on.
\<close>

lemma catalogue_names_distinct:
  "distinctNames (fst (components fromJson project nodes)) \<and>
   (distinctNames m \<longrightarrow> distinctNames (insertComponent cs key objs m)) \<and>
   \<not> nameTaken m (uniqueName m n (validFileName n) 1) \<and>
   (nameTaken m (validFileName n) \<and> CHR ''%'' \<notin> set n \<longrightarrow>
      (\<exists>count\<ge>1. uniqueName m n (validFileName n) 1 = validFileName (n @ ''_'' @ decimal count)))"
proof -
  have "distinctNames []" by (simp add: distinctNames_def)
  then have a: "distinctNames (fst (components fromJson project nodes))"
    unfolding components_registerAll by (simp add: distinctNames_registerAll)
  have c: "nameTaken m (validFileName n) \<and> CHR ''%'' \<notin> set n \<longrightarrow>
      (\<exists>count\<ge>1. uniqueName m n (validFileName n) 1 = validFileName (n @ ''_'' @ decimal count))"
    using uniqueName_form [of m n "validFileName n" 1] countedName_form [of n] by auto
  show ?thesis using a c distinctNames_insertComponent uniqueName_free by blast
qed

section \<open>The transpiler: data and text helpers\<close>

text \<open>
  A call of the transpiler ends in one of three ways: it returns, it throws a
  \<open>FigmaParser::Exception\<close>, or it leaves the defined behaviour of C++ (it dereferences
  a null pointer or an end iterator, or recurses without end); the last is \<open>Crash\<close>.
\<close>

datatype failure = Thrown exception | Crash

type_synonym 'a res = "failure + 'a"

definition throw :: "string list \<Rightarrow> 'a res" where
  "throw args = Inl (Thrown (mkException (toStr args)))"

definition bindR :: "'a res \<Rightarrow> ('a \<Rightarrow> 'b res) \<Rightarrow> 'b res" where
  "bindR r f = (case r of Inl e \<Rightarrow> Inl e | Inr v \<Rightarrow> f v)"

lemma bindR_cong [fundef_cong]:
  "r = r' \<Longrightarrow> (\<And>v. r' = Inr v \<Longrightarrow> f v = f' v) \<Longrightarrow> bindR r f = bindR r' f'"
  by (auto simp: bindR_def split: sum.splits)

text \<open>
  A run of \<open>out += ...\<close> statements: the texts in their order, or the first failure.
\<close>

fun concatR :: "string res list \<Rightarrow> string res" where
  "concatR [] = Inr []"
| "concatR (r # rs) =
     (case r of
        Inl e \<Rightarrow> Inl e
      | Inr s \<Rightarrow> (case concatR rs of Inl e \<Rightarrow> Inl e | Inr t \<Rightarrow> Inr (s @ t)))"

text \<open>
  The same for the functions that also add to \<open>m_componentIds\<close>: what they return is the
  text together with the ids they inserted.
\<close>

type_synonym emitted = "string \<times> string set"

definition emit :: "string \<Rightarrow> emitted res" where
  "emit s = Inr (s, {})"

definition lift :: "string res \<Rightarrow> emitted res" where
  "lift r = (case r of Inl e \<Rightarrow> Inl e | Inr s \<Rightarrow> Inr (s, {}))"

fun concatW :: "emitted res list \<Rightarrow> emitted res" where
  "concatW [] = Inr ([], {})"
| "concatW (r # rs) =
     (case r of
        Inl e \<Rightarrow> Inl e
      | Inr (s, ids) \<Rightarrow>
          (case concatW rs of Inl e \<Rightarrow> Inl e | Inr (t, ids') \<Rightarrow> Inr (s @ t, ids \<union> ids')))"

text \<open>
  The parser object. The last field is not a member of the class: it stands for the text
  Qt writes for a \<open>double\<close> (\<open>QString::number(double)\<close>, \<open>QString::arg(double)\<close>).
\<close>

record FigmaParser =
  m_flags :: "32 word"
  mImageProvider :: "string \<Rightarrow> bool \<Rightarrow> string"
  mResolveFont :: "string \<Rightarrow> string"
  m_components :: Components
  number :: "real \<Rightarrow> string"

unbundle bit_operations_syntax

definition PrerenderShapes :: "32 word" where "PrerenderShapes = 2"
definition PrerenderGroups :: "32 word" where "PrerenderGroups = 4"
definition PrerenderComponents :: "32 word" where "PrerenderComponents = 8"
definition PrerenderFrames :: "32 word" where "PrerenderFrames = 16"
definition PrerenderInstances :: "32 word" where "PrerenderInstances = 32"
definition ParseComponent :: "32 word" where "ParseComponent = 512"
definition BreakBooleans :: "32 word" where "BreakBooleans = 1024"
definition AntializeShapes :: "32 word" where "AntializeShapes = 2048"

definition PlaceHolder :: string where
  "PlaceHolder = ''placeholder''"

datatype StrokeType = Normal | Double | OnePix

datatype ItemType = TNone | TVector | TText | TFrame | TComponent | TBoolean | TInstance

text \<open>
  \<open>OrderedMap<QString, QByteArray>\<close>: \<open>m_data\<close> is the list of the pairs inserted, in
  their order; \<open>m_index\<close> maps a key to the position of its last insertion, so \<open>size()\<close>
  counts the different keys and \<open>operator[]\<close> reads the pair inserted last under the key
  (position 0 for a key never inserted, out of range in an empty map).
\<close>

type_synonym OrderedMap = "(string \<times> string) list"

definition om_insert :: "string \<Rightarrow> string \<Rightarrow> OrderedMap \<Rightarrow> OrderedMap" where
  "om_insert k v m = m @ [(k, v)]"

definition om_keys :: "OrderedMap \<Rightarrow> string list" where
  "om_keys m = map fst m"

definition om_size :: "OrderedMap \<Rightarrow> nat" where
  "om_size m = length (remdups (map fst m))"

definition om_at :: "OrderedMap \<Rightarrow> string \<Rightarrow> string option" where
  "om_at m k =
     (case filter (\<lambda>kv. fst kv = k) m of
        [] \<Rightarrow> (case m of [] \<Rightarrow> None | kv # _ \<Rightarrow> Some (snd kv))
      | kv # kvs \<Rightarrow> Some (snd (last (kv # kvs))))"

text \<open>\<open>QJsonArray::operator[]\<close> gives \<open>Undefined\<close> out of range.\<close>

definition jnth :: "json list \<Rightarrow> nat \<Rightarrow> json" where
  "jnth xs i = (if i < length xs then xs ! i else JUndefined)"

text \<open>\<open>QJsonValue::toInt\<close>: the number when it is a whole number that an \<open>int\<close> holds, else 0.\<close>

definition toInt :: "json \<Rightarrow> int" where
  "toInt v =
     (case v of
        JDouble d \<Rightarrow>
          (if of_int \<lfloor>d\<rfloor> = d \<and> - 2147483648 \<le> \<lfloor>d\<rfloor> \<and> \<lfloor>d\<rfloor> \<le> 2147483647 then \<lfloor>d\<rfloor> else 0)
      | _ \<Rightarrow> 0)"

text \<open>
  The conversions of a \<open>double\<close> to an integer drop the fraction. Where the result is not
  a value of the integer type, C++ leaves the conversion undefined; the value here is what
  the conversion instruction of x86-64 leaves: the least \<open>int\<close> for \<open>static_cast<int>\<close>, and
  for \<open>static_cast<unsigned>\<close> the low 32 bits of the conversion to 64 bits, which is 0 when
  64 bits do not hold the number either.
\<close>

definition truncate :: "real \<Rightarrow> int" where
  "truncate r = (if r < 0 then \<lceil>r\<rceil> else \<lfloor>r\<rfloor>)"

definition static_cast_int :: "real \<Rightarrow> int" where
  "static_cast_int r =
     (if - 2147483648 \<le> truncate r \<and> truncate r \<le> 2147483647 then truncate r else - 2147483648)"

definition static_cast_unsigned :: "real \<Rightarrow> nat" where
  "static_cast_unsigned r =
     (if - 9223372036854775808 \<le> truncate r \<and> truncate r \<le> 9223372036854775807
      then nat (truncate r mod 4294967296) else 0)"

text \<open>\<open>std::round\<close>: the nearest whole number, a half away from zero.\<close>

definition std_round :: "real \<Rightarrow> real" where
  "std_round r = (if r < 0 then - of_int \<lfloor>- r + 1 / 2\<rfloor> else of_int \<lfloor>r + 1 / 2\<rfloor>)"

definition m_intendent :: string where
  "m_intendent = ''    ''"

definition tabs :: "int \<Rightarrow> string" where
  "tabs intendents = concat (replicate (nat intendents) m_intendent)"

definition eq :: "real \<Rightarrow> real \<Rightarrow> bool" where
  "eq a b = (\<bar>a - b\<bar> < 1 / 2 ^ 52)"

text \<open>Hexadecimal text of width at least 2, as \<open>arg(value, 2, 16, QLatin1Char('0'))\<close>.\<close>

definition hexChar :: "nat \<Rightarrow> char" where
  "hexChar d = ''0123456789abcdef'' ! d"

function hexadecimal :: "nat \<Rightarrow> string" where
  "hexadecimal n = (if n < 16 then [hexChar n] else hexadecimal (n div 16) @ [hexChar (n mod 16)])"
  by pat_completeness auto
termination
  by (relation "measure (\<lambda>n. n)") auto

declare hexadecimal.simps [simp del]

definition hex2 :: "nat \<Rightarrow> string" where
  "hex2 n = (let h = hexadecimal n in if length h < 2 then CHR ''0'' # h else h)"

text \<open>\<open>toColor\<close>: each component is \<open>static_cast<unsigned>(std::round(c * 255.))\<close>.\<close>

definition colorByte :: "real \<Rightarrow> nat" where
  "colorByte c = static_cast_unsigned (std_round (c * 255))"

definition toColor :: "real \<Rightarrow> real \<Rightarrow> real \<Rightarrow> real \<Rightarrow> string" where
  \<open>toColor r g b a =
     ''"#'' @ hex2 (colorByte a) @ hex2 (colorByte r) @ hex2 (colorByte g) @ hex2 (colorByte b) @ ''"''\<close>

definition qmlId :: "string \<Rightarrow> string" where
  "qmlId ident =
     ''figma_'' @ map toLower (replaceRe (\<lambda>c. \<not> (isLower c \<or> isUpper c \<or> isDigit c)) (CHR ''_'') ident)"

definition delegateName :: "string \<Rightarrow> string" where
  "delegateName ident = ''delegate_'' @ map (\<lambda>c. if c = CHR '':'' then CHR ''_'' else c) ident"

text \<open>\<open>key.split(';').last()\<close>: the text after the last semicolon.\<close>

definition lastSection :: "string \<Rightarrow> string" where
  "lastSection key = rev (takeWhile (\<lambda>c. c \<noteq> CHR '';'') (rev key))"

text \<open>\<open>QString::replace("\"", "\\\"")\<close>.\<close>

definition escapeQuotes :: "string \<Rightarrow> string" where
  "escapeQuotes s = concat (map (\<lambda>c. if c = CHR 0x22 then [CHR 0x5C, CHR 0x22] else [c]) s)"

text \<open>
  \<open>getObjectsByType\<close>, \<open>components\<close> and \<open>validFileName\<close> are above. \<open>delta\<close>: the members
  of the instance that differ from the base. A comparator may throw, so it returns a
  result; it returns \<open>Null\<close> for "no difference".
\<close>

fun deltaLoop ::
  "jobject \<Rightarrow> jobject \<Rightarrow> string set \<Rightarrow> (string \<times> (json \<Rightarrow> json \<Rightarrow> json res)) list
     \<Rightarrow> string list \<Rightarrow> jobject \<Rightarrow> jobject res" where
  "deltaLoop instance base ignored compares [] newObject = Inr newObject"
| "deltaLoop instance base ignored compares (k # ks) newObject =
     (if k \<in> ignored then deltaLoop instance base ignored compares ks newObject
      else if \<not> contains base k
      then deltaLoop instance base ignored compares ks (jinsert k (jget instance k) newObject)
      else
        case map_of compares k of
          Some compare \<Rightarrow>
            (case compare (jget base k) (jget instance k) of
               Inl e \<Rightarrow> Inl e
             | Inr ret \<Rightarrow>
                 if ret \<noteq> JNull
                 then deltaLoop instance base ignored compares ks (jinsert k ret newObject)
                 else deltaLoop instance base ignored compares ks newObject)
        | None \<Rightarrow>
            if jget base k \<noteq> jget instance k
            then deltaLoop instance base ignored compares ks (jinsert k (jget instance k) newObject)
            else deltaLoop instance base ignored compares ks newObject)"

definition delta ::
  "jobject \<Rightarrow> jobject \<Rightarrow> string set \<Rightarrow> (string \<times> (json \<Rightarrow> json \<Rightarrow> json res)) list \<Rightarrow> jobject res" where
  "delta instance base ignored compares =
     bindR (deltaLoop instance base ignored compares (keys instance) [])
       (\<lambda>newObject.
          if newObject \<noteq> [] then
            if ''name'' \<notin> ignored \<and> contains instance ''name''
            then Inr (jinsert ''name'' (jget instance ''name'') newObject)
            else Inr newObject
          else Inr newObject)"

section \<open>The transpiler: emitters without recursion\<close>

definition types :: "(string \<times> ItemType) list" where
  "types =
     [(''RECTANGLE'', TVector),
      (''TEXT'', TText),
      (''COMPONENT'', TComponent),
      (''BOOLEAN_OPERATION'', TBoolean),
      (''INSTANCE'', TInstance),
      (''ELLIPSE'', TVector),
      (''VECTOR'', TVector),
      (''LINE'', TVector),
      (''REGULAR_POLYGON'', TVector),
      (''STAR'', TVector),
      (''GROUP'', TFrame),
      (''FRAME'', TFrame),
      (''SLICE'', TNone),
      (''NONE'', TNone)]"

text \<open>\<open>FigmaParser::type\<close>, named \<open>itemType\<close> here (\<open>type\<close> is also the name of parameters).\<close>

definition itemType :: "jobject \<Rightarrow> ItemType res" where
  \<open>itemType obj =
     (let t = toString (jget obj ''type'') in
      case map_of types t of
        None \<Rightarrow> throw [''Non supported object type:"'' @ t @ ''"'']
      | Some it \<Rightarrow> Inr it)\<close>

text \<open>
  \<open>getValue\<close> follows the component of an instance that lacks the member. The catalogue
  is read through a pointer to a constant hash, so a missing component is a null pointer;
  a chain of instances that returns to itself does not end.
\<close>

partial_function (option) getValue :: "Components \<Rightarrow> jobject \<Rightarrow> string \<Rightarrow> json res option" where [code]:
  "getValue comps obj key =
     (if contains obj key then Some (Inr (jget obj key))
      else
        case itemType obj of
          Inl e \<Rightarrow> Some (Inl e)
        | Inr t \<Rightarrow>
            if t = TInstance then
              (case map_of comps (toString (jget obj ''componentId'')) of
                 None \<Rightarrow> Some (Inl Crash)
               | Some c \<Rightarrow> getValue comps (c_object c) key)
            else Some (Inr JUndefined))"

definition getValueR :: "FigmaParser \<Rightarrow> jobject \<Rightarrow> string \<Rightarrow> json res" where
  "getValueR p obj key = (case getValue (m_components p) obj key of None \<Rightarrow> Inl Crash | Some r \<Rightarrow> r)"

definition makeComponentInstance :: "string \<Rightarrow> jobject \<Rightarrow> int \<Rightarrow> string" where
  \<open>makeComponentInstance type obj intendents =
     (let intendent = tabs (intendents - 1);
          intendent1 = tabs intendents
      in concat
        [intendent @ type @ '' {\<newline>'',
         intendent1 @ ''id: '' @ qmlId (toString (jget obj ''id'')) @ ''\<newline>'',
         intendent1 @ ''objectName:"'' @ escapeQuotes (toString (jget obj ''name'')) @ ''"\<newline>''])\<close>

definition makeEffects :: "FigmaParser \<Rightarrow> jobject \<Rightarrow> int \<Rightarrow> string" where
  "makeEffects p obj intendents =
     (if contains obj ''effects'' then
        let effects = toArray (jget obj ''effects'') in
        if effects \<noteq> [] then
          let intendent = tabs intendents;
              intendent1 = tabs (intendents + 1);
              e = jnth effects 0;
              effect = toObject e
          in
          if jget effect ''type'' = JString ''INNER_SHADOW'' \<or> jget effect ''type'' = JString ''DROP_SHADOW'' then
            let color = toObject (jget (toObject e) ''color'');
                radius = toDouble (jget (toObject e) ''radius'');
                offset = toObject (jget (toObject e) ''offset'')
            in concat
              [tabs intendents @ ''layer.enabled:true\<newline>'',
               tabs intendents @ ''layer.effect: DropShadow {\<newline>'',
               (if jget effect ''type'' = JString ''INNER_SHADOW'' then
                  intendent1 @ ''horizontalOffset: '' @ number p (- toDouble (jget offset ''x'')) @ ''\<newline>'' @
                  intendent1 @ ''verticalOffset: '' @ number p (- toDouble (jget offset ''y'')) @ ''\<newline>''
                else
                  intendent1 @ ''horizontalOffset: '' @ number p (toDouble (jget offset ''x'')) @ ''\<newline>'' @
                  intendent1 @ ''verticalOffset: '' @ number p (toDouble (jget offset ''y'')) @ ''\<newline>''),
               intendent1 @ ''radius: '' @ number p radius @ ''\<newline>'',
               intendent1 @ ''samples: 17\<newline>'',
               intendent1 @ ''color: '' @
                 toColor (toDouble (jget color ''r'')) (toDouble (jget color ''g''))
                         (toDouble (jget color ''b'')) (toDouble (jget color ''a'')) @ ''\<newline>'',
               intendent @ ''}\<newline>'']
          else []
        else []
      else [])"

definition makeTransforms :: "FigmaParser \<Rightarrow> jobject \<Rightarrow> int \<Rightarrow> string" where
  "makeTransforms p obj intendents =
     (if contains obj ''relativeTransform'' then
        let rows = toArray (jget obj ''relativeTransform'');
            row1 = toArray (jnth rows 0);
            row2 = toArray (jnth rows 1);
            intendent = tabs (intendents + 1);
            r1 = [toDouble (jnth row1 0), toDouble (jnth row1 1), toDouble (jnth row1 2)];
            r2 = [toDouble (jnth row2 0), toDouble (jnth row2 1), toDouble (jnth row2 2)]
        in
        if \<not> eq (r1 ! 0) 1 \<or> \<not> eq (r1 ! 1) 0 \<or> \<not> eq (r2 ! 0) 0 \<or> \<not> eq (r2 ! 1) 1 then
          concat
            [tabs intendents @ ''transform: Matrix4x4 {\<newline>'',
             intendent @ ''matrix: Qt.matrix4x4(\<newline>'',
             intendent @ number p (r1 ! 0) @ '', '' @ number p (r1 ! 1) @ '', '' @ number p (r1 ! 2) @ '', 0,\<newline>'',
             intendent @ number p (r2 ! 0) @ '', '' @ number p (r2 ! 1) @ '', '' @ number p (r2 ! 2) @ '', 0,\<newline>'',
             intendent @ ''0, 0, 1, 0,\<newline>'',
             intendent @ ''0, 0, 0, 1)\<newline>'',
             tabs intendents @ ''}\<newline>'']
        else []
      else [])"

definition makeItem :: "FigmaParser \<Rightarrow> string \<Rightarrow> jobject \<Rightarrow> int \<Rightarrow> string" where
  "makeItem p type obj intendents =
     (let intendent1 = tabs intendents
      in concat
        [makeComponentInstance type obj intendents,
         makeEffects p obj intendents,
         makeTransforms p obj intendents,
         (if contains obj ''visible'' \<and> \<not> toBool (jget obj ''visible'')
          then intendent1 @ ''visible: false\<newline>'' else []),
         (if contains obj ''opacity''
          then intendent1 @ ''opacity: '' @ number p (toDouble (jget obj ''opacity'')) @ ''\<newline>'' else [])])"

definition position :: "jobject \<Rightarrow> real \<times> real" where
  "position obj =
     (let rows = toArray (jget obj ''relativeTransform'');
          row1 = toArray (jnth rows 0);
          row2 = toArray (jnth rows 1)
      in (toDouble (jnth row1 2), toDouble (jnth row2 2)))"

text \<open>
  \<open>makeExtents\<close>; \<open>parent\<close> is the node \<open>m_parent\<close> points to, and \<open>extents\<close> is the
  \<open>QRectF\<close> as \<open>(x, y, width, height)\<close>.
\<close>

definition makeExtents ::
  "FigmaParser \<Rightarrow> jobject \<Rightarrow> jobject \<Rightarrow> int \<Rightarrow> real \<times> real \<times> real \<times> real \<Rightarrow> string res" where
  "makeExtents p parent obj intendents extents =
     (let (ex, ey, ew, eh) = extents;
          intendent = tabs intendents;
          constraints = toObject (jget obj ''constraints'');
          vertical = (if contains obj ''constraints'' then toString (jget constraints ''vertical'') else ''TOP'');
          horizontal = (if contains obj ''constraints'' then toString (jget constraints ''horizontal'') else ''LEFT'')
      in concatR
        [(if contains obj ''relativeTransform'' then
            let pos = position obj;
                tx = static_cast_int (fst pos + ex);
                ty = static_cast_int (snd pos + ey)
            in concatR
              [(if horizontal = ''LEFT'' \<or> horizontal = ''SCALE'' \<or> horizontal = ''LEFT_RIGHT'' \<or> horizontal = ''RIGHT''
                then Inr (intendent @ ''x:'' @ numberInt tx @ ''\<newline>'')
                else if horizontal = ''CENTER'' then
                  let parentWidth = toDouble (jget (toObject (jget parent ''size'')) ''x'');
                      ident = qmlId (toString (jget parent ''id''))
                  in bindR (getValueR p obj ''size'')
                       (\<lambda>sz.
                          let width = toDouble (jget (toObject sz) ''x'');
                              staticWidth = (parentWidth - width) / 2 - of_int tx
                          in Inr
                            (if eq staticWidth 0
                             then intendent @ ''x: ('' @ ident @ ''.width - width) / 2\<newline>''
                             else intendent @ ''x: ('' @ ident @ ''.width - width) / 2 '' @
                                    (if staticWidth < 0 then ''+'' else ''-'') @ '' '' @
                                    number p \<bar>staticWidth\<bar> @ ''\<newline>''))
                else Inr []),
               (if vertical = ''TOP'' \<or> vertical = ''SCALE'' \<or> vertical = ''TOP_BOTTOM'' \<or> vertical = ''BOTTOM''
                then Inr (intendent @ ''y:'' @ numberInt ty @ ''\<newline>'')
                else if vertical = ''CENTER'' then
                  let parentHeight = toDouble (jget (toObject (jget parent ''size'')) ''y'');
                      ident = qmlId (toString (jget parent ''id''))
                  in bindR (getValueR p obj ''size'')
                       (\<lambda>sz.
                          let height = toDouble (jget (toObject sz) ''y'');
                              staticHeight = (parentHeight - height) / 2 - of_int ty
                          in Inr
                            (if eq staticHeight 0
                             then intendent @ ''y: ('' @ ident @ ''.height - height) / 2\<newline>''
                             else intendent @ ''y: ('' @ ident @ ''.height - height) / 2 '' @
                                    (if staticHeight < 0 then ''+'' else ''-'') @ '' '' @
                                    number p \<bar>staticHeight\<bar> @ ''\<newline>''))
                else Inr [])]
          else Inr []),
         (if contains obj ''size'' then
            let vec = jget obj ''size'';
                width = toDouble (jget (toObject vec) ''x'');
                height = toDouble (jget (toObject vec) ''y'')
            in Inr (intendent @ ''width:'' @ number p (width + ew) @ ''\<newline>'' @
                    intendent @ ''height:'' @ number p (height + eh) @ ''\<newline>'')
          else Inr [])])"

definition makeSize :: "FigmaParser \<Rightarrow> jobject \<Rightarrow> int \<Rightarrow> real \<times> real \<Rightarrow> string" where
  "makeSize p obj intendents extents =
     (let intendent = tabs intendents;
          s = toObject (jget obj ''size'');
          width = toDouble (jget s ''x'') + fst extents;
          height = toDouble (jget s ''y'') + snd extents
      in intendent @ ''width:'' @ number p width @ ''\<newline>'' @
         intendent @ ''height:'' @ number p height @ ''\<newline>'')"

definition makeColor :: "jobject \<Rightarrow> int \<Rightarrow> real \<Rightarrow> string" where
  "makeColor obj intendents opacity =
     tabs intendents @ ''color:'' @
       toColor (toDouble (jget obj ''r'')) (toDouble (jget obj ''g'')) (toDouble (jget obj ''b''))
               (toDouble (jget obj ''a'') * opacity) @ ''\<newline>''"

text \<open>
  The loop of \<open>makeImageSource\<close> that breaks the image text every 1024 characters, for the
  source viewer.
\<close>

function insertBreaks :: "nat \<Rightarrow> string \<Rightarrow> string" where
  \<open>insertBreaks pos imageData =
     (if pos < length imageData
      then insertBreaks (pos + 1024) (take pos imageData @ ''" +\<newline> "'' @ drop pos imageData)
      else imageData)\<close>
  by pat_completeness auto
termination
  by (relation "measure (\<lambda>(pos, imageData). length imageData - pos)") auto

declare insertBreaks.simps [simp del]

definition makeImageSource :: "FigmaParser \<Rightarrow> string \<Rightarrow> bool \<Rightarrow> int \<Rightarrow> string \<Rightarrow> string res" where
  \<open>makeImageSource p img isRendering intendents placeHolder =
     (let imageData = mImageProvider p img isRendering in
      if imageData = [] then
        if placeHolder = [] then throw [''Cannot read imageRef'', img]
        else
          let imageData = mImageProvider p placeHolder isRendering in
          if imageData = [] then throw [''Cannot load placeholder'']
          else Inr
            (tabs intendents @ ''//Image load failed, placeholder\<newline>'' @
             tabs intendents @ ''sourceSize: Qt.size(parent.width, parent.height)\<newline>'' @
             tabs intendents @ ''source: "'' @ insertBreaks 1024 imageData @ ''"\<newline>'')
      else Inr (tabs intendents @ ''source: "'' @ insertBreaks 1024 imageData @ ''"\<newline>''))\<close>

definition makeImageRef :: "FigmaParser \<Rightarrow> string \<Rightarrow> int \<Rightarrow> string res" where
  "makeImageRef p img intendents =
     (let intendent = tabs (intendents + 1)
      in concatR
        [Inr (tabs intendents @ ''Image {\<newline>''),
         Inr (intendent @ ''anchors.fill: parent\<newline>''),
         Inr (intendent @ ''mipmap: true\<newline>''),
         Inr (intendent @ ''fillMode: Image.PreserveAspectCrop\<newline>''),
         makeImageSource p img False (intendents + 1) [],
         Inr (tabs intendents @ ''}\<newline>'')])"

definition makeFill :: "FigmaParser \<Rightarrow> jobject \<Rightarrow> int \<Rightarrow> string res" where
  \<open>makeFill p obj intendents =
     (let invisible = (contains obj ''visible'' \<and> \<not> toBool (jget obj ''visible''))
      in concatR
        [Inr
           (if contains obj ''color'' then
              let color = toObject (jget obj ''color'') in
              if \<not> invisible \<and> contains obj ''opacity''
              then makeColor color intendents (toDouble (jget obj ''opacity''))
              else makeColor color intendents (if invisible then 0 else 1)
            else tabs intendents @ ''color: "transparent"\<newline>''),
         (if contains obj ''imageRef''
          then makeImageRef p (toString (jget obj ''imageRef'')) (intendents + 1)
          else Inr [])])\<close>

definition makeVector :: "FigmaParser \<Rightarrow> jobject \<Rightarrow> jobject \<Rightarrow> int \<Rightarrow> string res" where
  \<open>makeVector p parent obj intendents =
     concatR
       [makeExtents p parent obj intendents (0, 0, 0, 0),
        (let fills = toArray (jget obj ''fills'') in
         if length fills > 0 then makeFill p (toObject (jnth fills 0)) intendents
         else if \<not> isString (jget obj ''fills'')
         then Inr (tabs intendents @ ''color: "transparent"\<newline>'')
         else Inr [])]\<close>

definition weights :: "(string \<times> real) list" where
  "weights =
     [(''Font.Thin'', 0),
      (''Font.ExtraLight'', 12),
      (''Font.Light'', 25),
      (''Font.Normal'', 50),
      (''Font.Medium'', 57),
      (''Font.DemiBold'', 63),
      (''Font.Bold'', 75),
      (''Font.ExtraBold'', 81),
      (''Font.Black'', 87)]"

definition fontWeight :: "real \<Rightarrow> string" where
  "fontWeight v =
     (let scaled = ((v - 100) / 900) * 90 in
      case find (\<lambda>nw. scaled \<le> snd nw) weights of
        Some nw \<Rightarrow> fst nw
      | None \<Rightarrow> fst (last weights))"

text \<open>A constant \<open>QHash<QString, QString>\<close> read at a key it lacks gives the empty text.\<close>

definition lookupText :: "(string \<times> string) list \<Rightarrow> string \<Rightarrow> string" where
  "lookupText table k = (case map_of table k of Some v \<Rightarrow> v | None \<Rightarrow> [])"

definition makeStrokeJoin :: "jobject \<Rightarrow> int \<Rightarrow> string" where
  "makeStrokeJoin stroke intendent =
     (if contains stroke ''strokeJoin'' then
        let joins = [(''MITER'', ''MiterJoin''), (''BEVEL'', ''MiterBevel''), (''ROUND'', ''MiterRound'')]
        in tabs intendent @ ''joinStyle: ShapePath.'' @
             lookupText joins (toString (jget stroke ''strokeJoin'')) @ ''\<newline>''
      else tabs intendent @ ''joinStyle: ShapePath.MiterJoin\<newline>'')"

definition makeShapeStroke :: "FigmaParser \<Rightarrow> jobject \<Rightarrow> int \<Rightarrow> StrokeType \<Rightarrow> string" where
  \<open>makeShapeStroke p obj intendents type =
     (let intendent = tabs intendents;
          colorType = (if jget obj ''type'' = JString ''LINE'' then ''fillColor'' else ''strokeColor'')
      in concat
        [(if contains obj ''strokes'' \<and> toArray (jget obj ''strokes'') \<noteq> [] then
            let stroke = toObject (jnth (toArray (jget obj ''strokes'')) 0);
                opacity = (if contains stroke ''opacity'' then toDouble (jget stroke ''opacity'') else 1);
                color = toObject (jget stroke ''color'')
            in makeStrokeJoin stroke intendents @
               intendent @ colorType @ '': '' @
                 toColor (toDouble (jget color ''r'')) (toDouble (jget color ''g''))
                         (toDouble (jget color ''b'')) (toDouble (jget color ''a'') * opacity) @ ''\<newline>''
          else if \<not> isString (jget obj ''strokes'')
          then intendent @ colorType @ '': "transparent"\<newline>''
          else []),
         (if contains obj ''strokeWeight'' then
            let val = (if type \<noteq> OnePix
                       then (if type = Double then toDouble (jget obj ''strokeWeight'') * 2
                             else toDouble (jget obj ''strokeWeight''))
                       else 1)
            in intendent @ ''strokeWidth:'' @ number p val @ ''\<newline>''
          else [])])\<close>

definition makeShapeFill :: "jobject \<Rightarrow> int \<Rightarrow> string" where
  \<open>makeShapeFill obj intendents =
     (let intendent = tabs intendents
      in concat
        [(if jget obj ''type'' \<noteq> JString ''LINE'' then
            if contains obj ''fills'' \<and> toArray (jget obj ''fills'') \<noteq> [] then
              let fills = toArray (jget obj ''fills'');
                  fill = toObject (jnth fills 0);
                  opacity = (if contains fill ''opacity'' then toDouble (jget fill ''opacity'') else 1);
                  color = toObject (jget fill ''color'')
              in intendent @ ''fillColor:'' @
                   toColor (toDouble (jget color ''r'')) (toDouble (jget color ''g''))
                           (toDouble (jget color ''b'')) (toDouble (jget color ''a'') * opacity) @ ''\<newline>''
            else if \<not> isString (jget obj ''fills'')
            then intendent @ ''fillColor:"transparent"\<newline>''
            else []
          else intendent @ ''strokeColor: "transparent"\<newline>''),
         intendent @ ''id: svgpath_'' @ qmlId (toString (jget obj ''id'')) @ ''\<newline>''])\<close>

definition makeSvgPath :: "nat \<Rightarrow> bool \<Rightarrow> jobject \<Rightarrow> int \<Rightarrow> string" where
  \<open>makeSvgPath index isFill obj intendents =
     (let intendent = tabs intendents;
          intendent1 = tabs (intendents + 1);
          array = (if isFill then toArray (jget obj ''fillGeometry'') else toArray (jget obj ''strokeGeometry''));
          path = toObject (jnth array index)
      in concat
        [(if index = 0 \<and> jget path ''windingRule'' = JString ''NONZERO''
          then intendent @ ''fillRule: ShapePath.WindingFill\<newline>'' else []),
         intendent @ ''PathSvg {\<newline>'',
         intendent1 @ ''path: "'' @ toString (jget path ''path'') @ ''"\<newline>'',
         intendent @ ''} \<newline>''])\<close>

definition isGradient :: "jobject \<Rightarrow> bool" where
  "isGradient obj =
     (contains obj ''fills'' \<and>
      list_ex (\<lambda>f. contains (toObject f) ''gradientHandlePositions'') (toArray (jget obj ''fills'')))"

definition imageFill :: "jobject \<Rightarrow> string option" where
  "imageFill obj =
     (if contains obj ''fills'' then
        let fills = toArray (jget obj ''fills'') in
        if length fills > 0 then
          let fill = toObject (jnth fills 0) in
          if contains fill ''imageRef'' then Some (toString (jget fill ''imageRef'')) else None
        else None
      else None)"

definition makeShapeFillData :: "jobject \<Rightarrow> int \<Rightarrow> string" where
  "makeShapeFillData obj shapeIntendents =
     (if toArray (jget obj ''fillGeometry'') \<noteq> []
      then concat (map (\<lambda>i. makeSvgPath i True obj shapeIntendents)
                       [0..<length (toArray (jget obj ''fillGeometry''))])
      else if toArray (jget obj ''strokeGeometry'') \<noteq> []
      then concat (map (\<lambda>i. makeSvgPath i False obj shapeIntendents)
                       [0..<length (toArray (jget obj ''strokeGeometry''))])
      else [])"

definition makeImageMaskData ::
  "FigmaParser \<Rightarrow> string \<Rightarrow> jobject \<Rightarrow> int \<Rightarrow> string \<Rightarrow> string \<Rightarrow> string res" where
  \<open>makeImageMaskData p imageRef obj intendents sourceId maskSourceId =
     (let intendent = tabs intendents;
          intendent1 = tabs (intendents + 1)
      in concatR
        [Inr (intendent @ ''OpacityMask {\<newline>''),
         Inr (intendent1 @ ''anchors.fill:parent\<newline>''),
         Inr (intendent1 @ ''source: '' @ sourceId @ ''\<newline>''),
         Inr (intendent1 @ ''maskSource: '' @ maskSourceId @ ''\<newline>''),
         Inr (intendent @ ''}\<newline>''),
         Inr (intendent @ ''Image {\<newline>''),
         Inr (intendent1 @ ''id: '' @ sourceId @ ''\<newline>''),
         Inr (intendent1 @ ''layer.enabled: true\<newline>''),
         Inr (intendent1 @ ''fillMode: Image.PreserveAspectCrop\<newline>''),
         Inr (intendent1 @ ''visible: false\<newline>''),
         Inr (intendent1 @ ''mipmap: true\<newline>''),
         Inr (intendent1 @ ''anchors.fill:parent\<newline>''),
         makeImageSource p imageRef False (intendents + 1) [],
         Inr (intendent @ ''}\<newline>''),
         Inr (intendent @ ''Shape {\<newline>''),
         Inr (intendent1 @ ''id: '' @ maskSourceId @ ''\<newline>''),
         Inr (intendent1 @ ''anchors.fill: parent\<newline>''),
         Inr (intendent1 @ ''layer.enabled: true\<newline>''),
         Inr (intendent1 @ ''visible: false\<newline>''),
         Inr (intendent1 @ ''ShapePath {\<newline>''),
         Inr (makeShapeStroke p obj (intendents + 2) Normal),
         Inr (tabs (intendents + 2) @ ''fillColor:"black"\<newline>''),
         Inr (makeShapeFillData obj (intendents + 2)),
         Inr (intendent1 @ ''}\<newline>''),
         Inr (intendent @ ''}\<newline>'')])\<close>

definition makeAntialising :: "FigmaParser \<Rightarrow> int \<Rightarrow> string" where
  "makeAntialising p intendents =
     (if m_flags p AND AntializeShapes \<noteq> 0 then tabs intendents @ ''antialiasing: true\<newline>'' else [])"

section \<open>The transpiler: vector nodes, text nodes and rendered nodes\<close>

text \<open>
  The two overloads of each \<open>makeVector...Fill\<close>: the one for a colour fill keeps the name,
  the one that takes the image reference has \<open>Image\<close> appended.
\<close>

definition makeVectorNormalFill :: "FigmaParser \<Rightarrow> jobject \<Rightarrow> jobject \<Rightarrow> int \<Rightarrow> string res" where
  "makeVectorNormalFill p parent obj intendents =
     (let intendent = tabs intendents
      in concatR
        [Inr (makeItem p ''Shape'' obj intendents),
         makeExtents p parent obj intendents (0, 0, 0, 0),
         Inr (makeAntialising p intendents),
         Inr (intendent @ ''ShapePath {\<newline>''),
         Inr (makeShapeStroke p obj (intendents + 1) Normal),
         Inr (makeShapeFill obj (intendents + 1)),
         Inr (makeShapeFillData obj (intendents + 1)),
         Inr (intendent @ ''}\<newline>''),
         Inr (tabs (intendents - 1) @ ''}\<newline>'')])"

definition makeVectorNormalFillImage ::
  "FigmaParser \<Rightarrow> jobject \<Rightarrow> string \<Rightarrow> jobject \<Rightarrow> int \<Rightarrow> string res" where
  "makeVectorNormalFillImage p parent img obj intendents =
     (let intendent = tabs intendents;
          intendent1 = tabs (intendents + 1);
          sourceId = ''source_'' @ qmlId (toString (jget obj ''id''));
          maskSourceId = ''maskSource_'' @ qmlId (toString (jget obj ''id''))
      in concatR
        [Inr (makeItem p ''Item'' obj intendents),
         makeExtents p parent obj intendents (0, 0, 0, 0),
         makeImageMaskData p img obj intendents sourceId maskSourceId,
         Inr (intendent @ ''Shape {\<newline>''),
         Inr (intendent1 @ ''anchors.fill: parent\<newline>''),
         Inr (makeAntialising p (intendents + 1)),
         Inr (intendent1 @ ''ShapePath {\<newline>''),
         Inr (makeShapeStroke p obj (intendents + 2) Normal),
         Inr (makeShapeFill obj (intendents + 2)),
         Inr (makeShapeFillData obj (intendents + 2)),
         Inr (intendent1 @ ''}\<newline>''),
         Inr (intendent @ ''}\<newline>''),
         Inr (tabs (intendents - 1) @ ''} \<newline>'')])"

definition makeVectorNormal :: "FigmaParser \<Rightarrow> jobject \<Rightarrow> jobject \<Rightarrow> int \<Rightarrow> string res" where
  "makeVectorNormal p parent obj intendents =
     (case imageFill obj of
        Some img \<Rightarrow> makeVectorNormalFillImage p parent img obj intendents
      | None \<Rightarrow> makeVectorNormalFill p parent obj intendents)"

definition makeVectorInsideFill :: "FigmaParser \<Rightarrow> jobject \<Rightarrow> jobject \<Rightarrow> int \<Rightarrow> string res" where
  \<open>makeVectorInsideFill p parent obj intendents =
     (let borderSourceId = ''borderSource_'' @ qmlId (toString (jget obj ''id''));
          intendent = tabs intendents;
          intendent1 = tabs (intendents + 1);
          borderMaskId = ''borderMask_'' @ qmlId (toString (jget obj ''id''));
          intendent2 = tabs (intendents + 2)
      in concatR
        [Inr (tabs (intendents - 1) @
              ''// QML (SVG) supports only center borders, thus an extra mask is created for '' @
              toString (jget obj ''strokeAlign'') @ ''\<newline>''),
         Inr (makeItem p ''Item'' obj intendents),
         makeExtents p parent obj intendents (0, 0, 0, 0),
         Inr (intendent @ ''Shape { \<newline>''),
         Inr (intendent1 @ ''id:'' @ borderSourceId @ ''\<newline>''),
         Inr (intendent1 @ ''anchors.fill: parent\<newline>''),
         Inr (makeAntialising p (intendents + 1)),
         Inr (intendent1 @ ''visible: false\<newline>''),
         Inr (intendent1 @ ''ShapePath {\<newline>''),
         Inr (makeShapeStroke p obj (intendents + 2) Double),
         Inr (makeShapeFill obj (intendents + 2)),
         Inr (makeShapeFillData obj (intendents + 2)),
         Inr (tabs (intendents + 2) @ ''}\<newline>''),
         Inr (intendent1 @ ''}\<newline>''),
         Inr (intendent1 @ ''Shape {\<newline>''),
         Inr (intendent1 @ ''id: '' @ borderMaskId @ ''\<newline>''),
         Inr (intendent1 @ ''anchors.fill:parent\<newline>''),
         Inr (makeAntialising p (intendents + 1)),
         Inr (intendent1 @ ''layer.enabled: true\<newline>''),
         Inr (intendent1 @ ''visible: false\<newline>''),
         Inr (intendent1 @ ''ShapePath {\<newline>''),
         Inr (intendent2 @ ''fillColor: "black"\<newline>''),
         Inr (intendent2 @ ''strokeColor: "transparent"\<newline>''),
         Inr (intendent2 @ ''strokeWidth: 0\<newline>''),
         Inr (intendent2 @ ''joinStyle: ShapePath.MiterJoin\<newline>''),
         Inr (makeShapeFillData obj (intendents + 2)),
         Inr (intendent1 @ ''}\<newline>''),
         Inr (intendent @ ''}\<newline>''),
         Inr (intendent @ ''OpacityMask {\<newline>''),
         Inr (intendent1 @ ''anchors.fill:parent\<newline>''),
         Inr (intendent1 @ ''source: '' @ borderSourceId @ ''\<newline>''),
         Inr (intendent1 @ ''maskSource: '' @ borderMaskId @ ''\<newline>''),
         Inr (intendent @ ''}\<newline>''),
         Inr (tabs (intendents - 1) @ ''}\<newline>'')])\<close>

definition makeVectorInsideFillImage ::
  "FigmaParser \<Rightarrow> jobject \<Rightarrow> string \<Rightarrow> jobject \<Rightarrow> int \<Rightarrow> string res" where
  \<open>makeVectorInsideFillImage p parent img obj intendents =
     (let borderSourceId = ''borderSource_'' @ qmlId (toString (jget obj ''id''));
          intendent = tabs intendents;
          intendent1 = tabs (intendents + 1);
          intendent2 = tabs (intendents + 2);
          sourceId = ''source_'' @ qmlId (toString (jget obj ''id''));
          maskSourceId = ''maskSource_'' @ qmlId (toString (jget obj ''id''));
          borderMaskId = ''borderMask_'' @ qmlId (toString (jget obj ''id''))
      in concatR
        [Inr (tabs (intendents - 1) @
              ''// QML (SVG) supports only center borders, thus an extra mask is created for '' @
              toString (jget obj ''strokeAlign'') @ ''\<newline>''),
         Inr (makeItem p ''Item'' obj intendents),
         makeExtents p parent obj intendents (0, 0, 0, 0),
         Inr (intendent @ ''Item {\<newline>''),
         Inr (intendent1 @ ''id:'' @ borderSourceId @ ''\<newline>''),
         Inr (intendent1 @ ''anchors.fill: parent\<newline>''),
         Inr (makeAntialising p (intendents + 1)),
         Inr (intendent1 @ ''visible: false\<newline>''),
         makeImageMaskData p img obj (intendents + 1) sourceId maskSourceId,
         Inr (intendent1 @ ''Shape {\<newline>''),
         Inr (intendent2 @ ''anchors.fill: parent\<newline>''),
         Inr (makeAntialising p (intendents + 2)),
         Inr (intendent2 @ ''ShapePath {\<newline>''),
         Inr (makeShapeStroke p obj (intendents + 3) Double),
         Inr (makeShapeFill obj (intendents + 3)),
         Inr (makeShapeFillData obj (intendents + 3)),
         Inr (intendent2 @ ''}\<newline>''),
         Inr (intendent1 @ ''}\<newline>''),
         Inr (intendent @ ''}\<newline>''),
         Inr (intendent @ ''Shape {\<newline>''),
         Inr (intendent1 @ ''id: '' @ borderMaskId @ ''\<newline>''),
         Inr (intendent1 @ ''anchors.fill:parent\<newline>''),
         Inr (makeAntialising p (intendents + 1)),
         Inr (intendent1 @ ''layer.enabled: true\<newline>''),
         Inr (intendent1 @ ''visible: false\<newline>''),
         Inr (intendent1 @ ''ShapePath {\<newline>''),
         Inr (intendent2 @ ''fillColor: "black"\<newline>''),
         Inr (intendent2 @ ''strokeColor: "transparent"\<newline>''),
         Inr (intendent2 @ ''strokeWidth: 0\<newline>''),
         Inr (intendent2 @ ''joinStyle: ShapePath.MiterJoin\<newline>''),
         Inr (makeShapeFillData obj (intendents + 2)),
         Inr (intendent1 @ ''}\<newline>''),
         Inr (intendent @ ''}\<newline>''),
         Inr (intendent @ ''OpacityMask {\<newline>''),
         Inr (intendent1 @ ''anchors.fill:parent\<newline>''),
         Inr (intendent1 @ ''source: '' @ borderSourceId @ ''\<newline>''),
         Inr (intendent1 @ ''maskSource: '' @ borderMaskId @ ''\<newline>''),
         Inr (intendent @ ''}\<newline>''),
         Inr (tabs (intendents - 1) @ ''}\<newline>'')])\<close>

definition makeVectorInside :: "FigmaParser \<Rightarrow> jobject \<Rightarrow> jobject \<Rightarrow> int \<Rightarrow> string res" where
  "makeVectorInside p parent obj intendentsBase =
     (case imageFill obj of
        Some img \<Rightarrow> makeVectorInsideFillImage p parent img obj intendentsBase
      | None \<Rightarrow> makeVectorInsideFill p parent obj intendentsBase)"

definition makeVectorOutsideFill :: "FigmaParser \<Rightarrow> jobject \<Rightarrow> jobject \<Rightarrow> int \<Rightarrow> string res" where
  \<open>makeVectorOutsideFill p parent obj intendents =
     (let borderWidth = toDouble (jget obj ''strokeWeight'');
          borderSourceId = ''borderSource_'' @ qmlId (toString (jget obj ''id''));
          intendent = tabs intendents;
          intendent1 = tabs (intendents + 1);
          intendent2 = tabs (intendents + 2);
          intendent3 = tabs (intendents + 3);
          borderMaskId = ''borderMask_'' @ qmlId (toString (jget obj ''id''))
      in concatR
        [Inr (tabs (intendents - 1) @
              ''// QML (SVG) supports only center borders, thus an extra mask is created for '' @
              toString (jget obj ''strokeAlign'') @ ''\<newline>''),
         Inr (makeItem p ''Item'' obj intendents),
         makeExtents p parent obj intendents (- borderWidth, - borderWidth, borderWidth * 2, borderWidth * 2),
         Inr (intendent @ ''Shape {\<newline>''),
         Inr (intendent1 @ ''x: '' @ number p borderWidth @ ''\<newline>''),
         Inr (intendent1 @ ''y: '' @ number p borderWidth @ ''\<newline>''),
         Inr (makeSize p obj (intendents + 1) (0, 0)),
         Inr (makeAntialising p (intendents + 1)),
         Inr (intendent1 @ ''ShapePath {\<newline>''),
         Inr (makeShapeFill obj (intendents + 2)),
         Inr (makeShapeFillData obj (intendents + 2)),
         Inr (intendent2 @ ''strokeWidth: 0\<newline>''),
         Inr (intendent2 @ ''strokeColor: fillColor\<newline>''),
         Inr (intendent2 @ ''joinStyle: ShapePath.MiterJoin\<newline>''),
         Inr (intendent1 @ ''}\<newline>''),
         Inr (intendent @ ''}\<newline>''),
         Inr (intendent @ ''Item {\<newline>''),
         Inr (intendent1 @ ''id: '' @ borderSourceId @ ''\<newline>''),
         Inr (intendent1 @ ''anchors.fill:parent\<newline>''),
         Inr (intendent1 @ ''visible: false\<newline>''),
         Inr (intendent1 @ ''Shape {\<newline>''),
         Inr (makeAntialising p (intendents + 2)),
         Inr (intendent2 @ ''x: '' @ number p borderWidth @ ''\<newline>''),
         Inr (intendent2 @ ''y: '' @ number p borderWidth @ ''\<newline>''),
         Inr (makeSize p obj (intendents + 2) (0, 0)),
         Inr (intendent2 @ ''ShapePath {\<newline>''),
         Inr (intendent3 @ ''fillColor: "black"\<newline>''),
         Inr (makeShapeStroke p obj (intendents + 3) Double),
         Inr (makeShapeFillData obj (intendents + 3)),
         Inr (intendent2 @ ''}\<newline>''),
         Inr (intendent1 @ ''}\<newline>''),
         Inr (intendent @ ''}\<newline>''),
         Inr (intendent @ ''Item {\<newline>''),
         Inr (intendent1 @ ''id: '' @ borderMaskId @ ''\<newline>''),
         Inr (intendent1 @ ''anchors.fill:parent\<newline>''),
         Inr (makeAntialising p (intendents + 1)),
         Inr (intendent1 @ ''visible: false\<newline>''),
         Inr (intendent1 @ ''Shape {\<newline>''),
         Inr (intendent2 @ ''x: '' @ number p borderWidth @ ''\<newline>''),
         Inr (intendent2 @ ''y: '' @ number p borderWidth @ ''\<newline>''),
         Inr (makeSize p obj (intendents + 2) (0, 0)),
         Inr (intendent2 @ ''ShapePath {\<newline>''),
         Inr (intendent3 @ ''fillColor: "black"\<newline>''),
         Inr (intendent3 @ ''strokeColor: "transparent"\<newline>''),
         Inr (intendent3 @ ''strokeWidth: '' @ number p borderWidth @ ''\<newline>''),
         Inr (intendent3 @ ''joinStyle: ShapePath.MiterJoin\<newline>''),
         Inr (makeShapeFillData obj (intendents + 3)),
         Inr (intendent2 @ ''}\<newline>''),
         Inr (intendent1 @ ''}\<newline>''),
         Inr (intendent @ ''}\<newline>''),
         Inr (intendent @ ''OpacityMask {\<newline>''),
         Inr (intendent1 @ ''anchors.fill:parent\<newline>''),
         Inr (intendent1 @ ''maskSource: '' @ borderMaskId @ ''\<newline>''),
         Inr (intendent1 @ ''source: '' @ borderSourceId @ ''\<newline>''),
         Inr (intendent1 @ ''invert: true\<newline>''),
         Inr (intendent @ ''}\<newline>''),
         Inr (tabs (intendents - 1) @ ''}\<newline>'')])\<close>

definition makeVectorOutsideFillImage ::
  "FigmaParser \<Rightarrow> jobject \<Rightarrow> string \<Rightarrow> jobject \<Rightarrow> int \<Rightarrow> string res" where
  \<open>makeVectorOutsideFillImage p parent img obj intendents =
     (let borderWidth = toDouble (jget obj ''strokeWeight'');
          borderSourceId = ''borderSource_'' @ qmlId (toString (jget obj ''id''));
          intendent = tabs intendents;
          intendent1 = tabs (intendents + 1);
          intendent2 = tabs (intendents + 2);
          intendent3 = tabs (intendents + 3);
          sourceId = ''source_'' @ qmlId (toString (jget obj ''id''));
          maskSourceId = ''maskSource_'' @ qmlId (toString (jget obj ''id''));
          borderMaskId = ''borderMask_'' @ qmlId (toString (jget obj ''id''))
      in concatR
        [Inr (tabs (intendents - 1) @
              ''// QML (SVG) supports only center borders, thus an extra mask is created for '' @
              toString (jget obj ''strokeAlign'') @ ''\<newline>''),
         Inr (makeItem p ''Item'' obj intendents),
         makeExtents p parent obj intendents (- borderWidth, - borderWidth, borderWidth * 2, borderWidth * 2),
         Inr (intendent @ ''Item {\<newline>''),
         Inr (intendent1 @ ''x: '' @ number p borderWidth @ ''\<newline>''),
         Inr (intendent1 @ ''y: '' @ number p borderWidth @ ''\<newline>''),
         Inr (makeSize p obj (intendents + 1) (0, 0)),
         Inr (makeAntialising p (intendents + 1)),
         makeImageMaskData p img obj (intendents + 1) sourceId maskSourceId,
         Inr (intendent1 @ ''Shape {\<newline>''),
         Inr (intendent2 @ ''anchors.fill: parent\<newline>''),
         Inr (makeAntialising p (intendents + 2)),
         Inr (intendent2 @ ''ShapePath {\<newline>''),
         Inr (intendent3 @ ''strokeColor: "transparent"\<newline>''),
         Inr (intendent3 @ ''strokeWidth: 0\<newline>''),
         Inr (intendent3 @ ''joinStyle: ShapePath.MiterJoin\<newline>''),
         Inr (makeShapeFill obj (intendents + 3)),
         Inr (makeShapeFillData obj (intendents + 3)),
         Inr (intendent2 @ ''} \<newline>''),
         Inr (intendent1 @ ''} \<newline>''),
         Inr (intendent @ ''} \<newline>''),
         Inr (intendent @ ''Item {\<newline>''),
         Inr (intendent1 @ ''id: '' @ borderSourceId @ ''\<newline>''),
         Inr (intendent1 @ ''anchors.fill:parent\<newline>''),
         Inr (intendent1 @ ''visible: false\<newline>''),
         Inr (intendent1 @ ''Shape {\<newline>''),
         Inr (makeAntialising p (intendents + 2)),
         Inr (intendent2 @ ''x: '' @ number p borderWidth @ ''\<newline>''),
         Inr (intendent2 @ ''y: '' @ number p borderWidth @ ''\<newline>''),
         Inr (makeSize p obj (intendents + 2) (0, 0)),
         Inr (intendent2 @ ''ShapePath {\<newline>''),
         Inr (intendent3 @ ''fillColor: "black"\<newline>''),
         Inr (makeShapeStroke p obj (intendents + 3) Double),
         Inr (makeShapeFillData obj (intendents + 3)),
         Inr (intendent2 @ ''}\<newline>''),
         Inr (intendent1 @ ''}\<newline>''),
         Inr (intendent @ ''}\<newline>''),
         Inr (intendent @ ''Item {\<newline>''),
         Inr (intendent1 @ ''id: '' @ borderMaskId @ ''\<newline>''),
         Inr (intendent1 @ ''anchors.fill:parent\<newline>''),
         Inr (makeAntialising p (intendents + 1)),
         Inr (intendent1 @ ''visible: false\<newline>''),
         Inr (intendent1 @ ''Shape {\<newline>''),
         Inr (intendent2 @ ''x: '' @ number p borderWidth @ ''\<newline>''),
         Inr (intendent2 @ ''y: '' @ number p borderWidth @ ''\<newline>''),
         Inr (makeSize p obj (intendents + 2) (0, 0)),
         Inr (intendent2 @ ''ShapePath {\<newline>''),
         Inr (intendent3 @ ''fillColor: "black"\<newline>''),
         Inr (intendent3 @ ''strokeColor: "transparent"\<newline>''),
         Inr (intendent3 @ ''strokeWidth: '' @ number p borderWidth @ ''\<newline>''),
         Inr (intendent3 @ ''joinStyle: ShapePath.MiterJoin\<newline>''),
         Inr (makeShapeFillData obj (intendents + 3)),
         Inr (intendent2 @ ''}\<newline>''),
         Inr (intendent1 @ ''}\<newline>''),
         Inr (intendent @ ''}\<newline>''),
         Inr (intendent @ ''OpacityMask {\<newline>''),
         Inr (intendent1 @ ''anchors.fill:parent\<newline>''),
         Inr (intendent1 @ ''maskSource: '' @ borderMaskId @ ''\<newline>''),
         Inr (intendent1 @ ''source: '' @ borderSourceId @ ''\<newline>''),
         Inr (intendent1 @ ''invert: true\<newline>''),
         Inr (intendent @ ''}\<newline>''),
         Inr (tabs (intendents - 1) @ ''}\<newline>'')])\<close>

definition makeVectorOutside :: "FigmaParser \<Rightarrow> jobject \<Rightarrow> jobject \<Rightarrow> int \<Rightarrow> string res" where
  "makeVectorOutside p parent obj intendentsBase =
     (case imageFill obj of
        Some img \<Rightarrow> makeVectorOutsideFillImage p parent img obj intendentsBase
      | None \<Rightarrow> makeVectorOutsideFill p parent obj intendentsBase)"

definition hasBorders :: "jobject \<Rightarrow> bool" where
  "hasBorders obj =
     (contains obj ''strokes'' \<and> toArray (jget obj ''strokes'') \<noteq> [] \<and>
      contains obj ''strokeWeight'' \<and> toDouble (jget obj ''strokeWeight'') > 1)"

definition parseVector :: "FigmaParser \<Rightarrow> jobject \<Rightarrow> jobject \<Rightarrow> int \<Rightarrow> string res" where
  "parseVector p parent obj intendents =
     (if hasBorders obj \<and> jget obj ''strokeAlign'' = JString ''INSIDE''
      then makeVectorInside p parent obj intendents
      else if hasBorders obj \<and> jget obj ''strokeAlign'' = JString ''OUTSIDE''
      then makeVectorOutside p parent obj intendents
      else makeVectorNormal p parent obj intendents)"

definition parseLine :: "FigmaParser \<Rightarrow> jobject \<Rightarrow> jobject \<Rightarrow> int \<Rightarrow> string res" where
  "parseLine p parent obj intendents = parseVector p parent obj intendents"

definition parsePolygon :: "FigmaParser \<Rightarrow> jobject \<Rightarrow> jobject \<Rightarrow> int \<Rightarrow> string res" where
  "parsePolygon p parent obj intendents = parseVector p parent obj intendents"

definition parseStar :: "FigmaParser \<Rightarrow> jobject \<Rightarrow> jobject \<Rightarrow> int \<Rightarrow> string res" where
  "parseStar p parent obj intendents = parseVector p parent obj intendents"

definition parseRectangle :: "FigmaParser \<Rightarrow> jobject \<Rightarrow> jobject \<Rightarrow> int \<Rightarrow> string res" where
  "parseRectangle p parent obj intendents = parseVector p parent obj intendents"

definition parseEllipse :: "FigmaParser \<Rightarrow> jobject \<Rightarrow> jobject \<Rightarrow> int \<Rightarrow> string res" where
  "parseEllipse p parent obj intendents = parseVector p parent obj intendents"

definition toQMLTextStyles :: "FigmaParser \<Rightarrow> jobject \<Rightarrow> jobject" where
  \<open>toQMLTextStyles p obj =
     (let resolvedFunction = mResolveFont p (toString (jget obj ''fontFamily''));
          styles = [];
          styles = jinsert ''font.family'' (JString (''"'' @ resolvedFunction @ ''"'')) styles;
          styles = jinsert ''font.italic'' (JString (if toBool (jget obj ''italic'') then ''true'' else ''false'')) styles;
          styles = jinsert ''font.pixelSize'' (JString (numberInt (static_cast_int (of_int \<lfloor>toDouble (jget obj ''fontSize'')\<rfloor>)))) styles;
          styles = jinsert ''font.weight'' (JString (fontWeight (toDouble (jget obj ''fontWeight'')))) styles;
          styles =
            (if contains obj ''textCase'' then
               let capitalization =
                     [(''UPPER'', ''Font.AllUppercase''),
                      (''LOWER'', ''Font.AllLowercase''),
                      (''TITLE'', ''Font.MixedCase''),
                      (''SMALL_CAPS'', ''Font.SmallCaps''),
                      (''SMALL_CAPS_FORCED'', ''Font.Capitalize'')]
               in jinsert ''font.capitalization''
                    (JString (lookupText capitalization (toString (jget obj ''textCase'')))) styles
             else styles);
          styles =
            (if contains obj ''textDecoration'' then
               let decoration = [(''STRIKETHROUGH'', ''strikeout''), (''UNDERLINE'', ''underline'')]
               in jinsert (lookupText decoration (toString (jget obj ''textDecoration''))) (JBool True) styles
             else styles);
          styles =
            (if contains obj ''paragraphSpacing''
             then jinsert ''topPadding'' (JString (numberInt (toInt (jget obj ''paragraphSpacing'')))) styles
             else styles);
          styles =
            (if contains obj ''paragraphIndent''
             then jinsert ''leftPadding'' (JString (numberInt (toInt (jget obj ''paragraphIndent'')))) styles
             else styles);
          hAlign =
            [(''LEFT'', ''Text.AlignLeft''),
             (''RIGHT'', ''Text.AlignRight''),
             (''CENTER'', ''Text.AlignHCenter''),
             (''JUSTIFIED'', ''Text.AlignJustify'')];
          styles = jinsert ''horizontalAlignment''
                     (JString (lookupText hAlign (toString (jget obj ''textAlignHorizontal'')))) styles;
          vAlign =
            [(''TOP'', ''Text.AlignTop''),
             (''BOTTOM'', ''Text.AlignBottom''),
             (''CENTER'', ''Text.AlignVCenter'')];
          styles = jinsert ''verticalAlignment''
                     (JString (lookupText vAlign (toString (jget obj ''textAlignVertical'')))) styles;
          styles = jinsert ''font.letterSpacing'' (JString (number p (toDouble (jget obj ''letterSpacing'')))) styles
      in styles)\<close>

text \<open>\<open>v.toVariant().toString()\<close> for the values \<open>toQMLTextStyles\<close> inserts.\<close>

definition variantToString :: "FigmaParser \<Rightarrow> json \<Rightarrow> string" where
  "variantToString p v =
     (case v of
        JString s \<Rightarrow> s
      | JBool b \<Rightarrow> (if b then ''true'' else ''false'')
      | JDouble d \<Rightarrow> number p d
      | _ \<Rightarrow> [])"

definition parseStyle :: "FigmaParser \<Rightarrow> jobject \<Rightarrow> int \<Rightarrow> string res" where
  "parseStyle p obj intendents =
     (let intendent = tabs intendents;
          styles = toQMLTextStyles p obj
      in concatR
        [Inr (concat (map (\<lambda>k. intendent @ k @ '': '' @ variantToString p (jget styles k) @ ''\<newline>'')
                          (keys styles))),
         (let fills = toArray (jget obj ''fills'') in
          if length fills > 0 then makeFill p (toObject (jnth fills 0)) intendents else Inr [])])"

definition isRendering :: "FigmaParser \<Rightarrow> jobject \<Rightarrow> bool res" where
  "isRendering p obj =
     (if toBool (jget obj ''isRendering'') then Inr True
      else
        bindR (itemType obj)
          (\<lambda>t.
             if t = TVector \<and> (m_flags p AND PrerenderShapes \<noteq> 0 \<or> isGradient obj) then Inr True
             else if t = TText \<and> isGradient obj then Inr True
             else if t = TFrame \<and> toString (jget obj ''type'') \<noteq> ''GROUP'' \<and> m_flags p AND PrerenderFrames \<noteq> 0
             then Inr True
             else if toString (jget obj ''type'') = ''GROUP'' \<and> m_flags p AND PrerenderGroups \<noteq> 0 then Inr True
             else if t = TComponent \<and> m_flags p AND PrerenderComponents \<noteq> 0 then Inr True
             else if t = TInstance \<and> m_flags p AND PrerenderInstances \<noteq> 0 then Inr True
             else Inr False))"

definition parseText :: "FigmaParser \<Rightarrow> jobject \<Rightarrow> jobject \<Rightarrow> int \<Rightarrow> string res" where
  \<open>parseText p parent obj intendents =
     (let intendent = tabs intendents
      in concatR
        [Inr (makeItem p ''Text'' obj intendents),
         makeVector p parent obj intendents,
         Inr (intendent @ ''wrapMode: TextEdit.WordWrap\<newline>''),
         Inr (intendent @ ''text:"'' @ toString (jget obj ''characters'') @ ''"\<newline>''),
         parseStyle p (toObject (jget obj ''style'')) intendents,
         Inr (tabs (intendents - 1) @ ''}\<newline>'')])\<close>

definition parseSlice :: "jobject \<Rightarrow> int \<Rightarrow> string" where
  "parseSlice obj intendents = []"

function getSize :: "jobject \<Rightarrow> real \<times> real" where
  "getSize obj =
     (let rect = toObject (jget obj ''absoluteBoundingBox'');
          sz = (toDouble (jget rect ''width''), toDouble (jget rect ''height''))
      in if contains obj ''children''
         then foldl (\<lambda>sz child.
                       let c = getSize (toObject child)
                       in (max (fst sz) (fst c), max (snd sz) (snd c)))
                sz (toArray (jget obj ''children''))
         else sz)"
  by pat_completeness auto
termination
  by (relation "measure objSize") (auto simp: size_child)

declare getSize.simps [simp del]

definition parseRendered :: "FigmaParser \<Rightarrow> jobject \<Rightarrow> jobject \<Rightarrow> int \<Rightarrow> string res" where
  "parseRendered p parent obj intendents =
     (let intendent = tabs intendents;
          prect = toObject (jget parent ''absoluteBoundingBox'');
          px = toDouble (jget prect ''x'');
          py = toDouble (jget prect ''y'');
          rect = toObject (jget obj ''absoluteBoundingBox'');
          x = toDouble (jget rect ''x'');
          y = toDouble (jget rect ''y'');
          rsect = getSize obj;
          width = fst rsect;
          height = snd rsect;
          imageId = ''i_'' @ qmlId (toString (jget obj ''id''));
          invisible = (contains obj ''visible'' \<and> \<not> toBool (jget obj ''visible''))
      in concatR
        [Inr (makeComponentInstance ''Item'' obj intendents),
         Inr (intendent @ ''x: '' @ number p (x - px) @ ''\<newline>''),
         Inr (intendent @ ''y: '' @ number p (y - py) @ ''\<newline>''),
         Inr (intendent @ ''width:'' @ number p width @ ''\<newline>''),
         Inr (intendent @ ''height:'' @ number p height @ ''\<newline>''),
         (if \<not> invisible then
            let intendent1 = tabs (intendents + 1)
            in concatR
              [Inr (intendent @ ''Image {\<newline>''),
               Inr (intendent1 @ ''id: '' @ imageId @ ''\<newline>''),
               Inr (intendent1 @ ''anchors.centerIn: parent\<newline>''),
               Inr (intendent1 @ ''mipmap: true\<newline>''),
               Inr (intendent1 @ ''fillMode: Image.PreserveAspectFit\<newline>''),
               makeImageSource p (toString (jget obj ''id'')) True (intendents + 1) PlaceHolder,
               Inr (intendent @ ''}\<newline>'')]
          else Inr []),
         Inr (tabs (intendents - 1) @ ''}\<newline>'')])"

section \<open>The transpiler: the recursive descent\<close>

lemma size_child_nth:
  "i < length (toArray (jget obj k)) \<Longrightarrow> objSize (toObject (toArray (jget obj k) ! i)) < objSize obj"
  by (rule size_child [of _ obj k]) (rule nth_mem)

lemma size_child_jnth:
  "i < length (toArray (jget obj k)) \<Longrightarrow> objSize (toObject (jnth (toArray (jget obj k)) i)) < objSize obj"
  by (simp add: jnth_def size_child_nth)

lemma size_child_jnth0:
  "\<not> length (toArray (jget obj k)) < 2 \<Longrightarrow> objSize (toObject (jnth (toArray (jget obj k)) 0)) < objSize obj"
  by (rule size_child_jnth) auto

lemma size_child_enumerate:
  "(i, c) \<in> set (enumerate m (toArray (jget obj k))) \<Longrightarrow> objSize (toObject c) < objSize obj"
proof -
  assume "(i, c) \<in> set (enumerate m (toArray (jget obj k)))"
  then have "c \<in> set (toArray (jget obj k))"
    by (auto simp: in_set_enumerate_eq)
  then show ?thesis by (rule size_child)
qed

text \<open>The keys of the table \<open>parsers\<close> of \<open>parse\<close>.\<close>

definition parsers :: "string list" where
  "parsers =
     [''RECTANGLE'', ''TEXT'', ''COMPONENT'', ''BOOLEAN_OPERATION'', ''INSTANCE'', ''ELLIPSE'',
      ''VECTOR'', ''LINE'', ''REGULAR_POLYGON'', ''STAR'', ''GROUP'', ''FRAME'', ''SLICE'', ''NONE'']"

text \<open>
  The texts of \<open>parseComponent\<close> for one child: the body of its first loop over the keys
  of the children, and the body of the loop inside \<open>Component.onCompleted\<close>.
\<close>

definition properties :: "string list" where
  "properties = [''x'', ''y'', ''width'', ''height'']"

definition componentDelegate :: "int \<Rightarrow> OrderedMap \<Rightarrow> string \<Rightarrow> string res" where
  "componentDelegate intendents children key =
     (let intendent = tabs intendents;
          ident = delegateName key;
          sname = map toUpper (take 1 ident) @ drop 1 ident
      in case om_at children key of
           None \<Rightarrow> Inl Crash
         | Some bytes \<Rightarrow> Inr (concat
             [intendent @ ''property Component '' @ ident @ '': '' @ bytes,
              intendent @ ''property Item i_'' @ ident @ ''\<newline>'',
              intendent @
                argString (argString ''property matrix4x4 %1_transform: Qt.matrix4x4(%2)\<newline>'' ident)
                  (concat (replicate 16 ''Nan,'')),
              intendent @ ''on'' @ sname @ ''_transformChanged: {if(i_'' @ ident @ '' && i_'' @ ident @
                ''.transform != '' @ ident @ ''_transform) i_'' @ ident @ ''.transform = '' @ ident @
                ''_transform;}\<newline>'',
              concat (map (\<lambda>pr.
                  intendent @ ''property real '' @ ident @ ''_'' @ pr @ '': NaN\<newline>'' @
                  intendent @ ''on'' @ sname @ ''_'' @ pr @ ''Changed: {if(i_'' @ ident @ '' && i_'' @ ident @
                    ''.'' @ pr @ '' != '' @ ident @ ''_'' @ pr @ '') i_'' @ ident @ ''.'' @ pr @ '' = '' @
                    ident @ ''_'' @ pr @ '';}\<newline>'')
                properties)]))"

definition componentCompleted :: "int \<Rightarrow> string \<Rightarrow> string" where
  "componentCompleted intendents key =
     (let intendent1 = tabs (intendents + 1);
          dname = delegateName key
      in concat
        [intendent1 @ ''const o_'' @ dname @ '' = {}\<newline>'',
         intendent1 @ ''if(!isNaN('' @ dname @ ''_transform.m11)) o_'' @ dname @ ''['' @ [CHR 0x27] @
           ''transform'' @ [CHR 0x27] @ ''] = '' @ dname @ ''_transform;\<newline>'',
         concat (map (\<lambda>pr.
             intendent1 @ ''if(!isNaN('' @ dname @ ''_'' @ pr @ '')) o_'' @ dname @ ''['' @ [CHR 0x27] @ pr @
               [CHR 0x27] @ ''] = '' @ dname @ ''_'' @ pr @ '';\<newline>'')
           properties),
         intendent1 @ ''i_'' @ dname @ '' = '' @ dname @ ''.createObject(this, o_'' @ dname @ '')\<newline>'',
         concat (map (\<lambda>pr.
             intendent1 @ dname @ ''_'' @ pr @ '' = Qt.binding(()=>i_'' @ dname @ ''.'' @ pr @ '')\<newline>'')
           properties)])"

text \<open>
  The texts of \<open>parseChildrenItems\<close> around a mask child: what it writes before the
  markup of the mask, and after it.
\<close>

definition maskHead :: "int \<Rightarrow> jobject \<Rightarrow> string" where
  "maskHead intendents child =
     (let intendent = tabs intendents;
          intendent1 = tabs (intendents + 1);
          maskSourceId = ''mask_'' @ qmlId (toString (jget child ''id''));
          sourceId = ''source_'' @ qmlId (toString (jget child ''id''))
      in concat
        [tabs intendents @ ''Item {\<newline>'',
         intendent @ ''anchors.fill:parent\<newline>'',
         intendent @ ''OpacityMask {\<newline>'',
         intendent1 @ ''anchors.fill:parent\<newline>'',
         intendent1 @ ''source: '' @ sourceId @ ''\<newline>'',
         intendent1 @ ''maskSource: '' @ maskSourceId @ ''\<newline>'',
         intendent @ ''}\<newline>\<newline>'',
         intendent @ ''Item {\<newline>'',
         intendent1 @ ''id: '' @ maskSourceId @ ''\<newline>'',
         intendent1 @ ''anchors.fill:parent\<newline>''])"

definition maskTail :: "int \<Rightarrow> jobject \<Rightarrow> string" where
  "maskTail intendents child =
     (let intendent = tabs intendents;
          intendent1 = tabs (intendents + 1);
          sourceId = ''source_'' @ qmlId (toString (jget child ''id''))
      in concat
        [intendent1 @ ''visible:false\<newline>'',
         intendent @ ''}\<newline>\<newline>'',
         intendent @ ''Item {\<newline>'',
         intendent1 @ ''id: '' @ sourceId @ ''\<newline>'',
         intendent1 @ ''anchors.fill:parent\<newline>'',
         intendent1 @ ''visible:false\<newline>''])"

text \<open>
  The start of the four boolean operations but \<open>SUBTRACT\<close>: the rectangle that carries the
  fill of the node. For \<open>EXCLUDE\<close> the rectangle also holds the two shaders.
\<close>

definition booleanFill :: "FigmaParser \<Rightarrow> jobject \<Rightarrow> int \<Rightarrow> string \<Rightarrow> string res" where
  \<open>booleanFill p obj fillIntendents transparentIntendent =
     (let fills = toArray (jget obj ''fills'') in
      if length fills > 0 then makeFill p (toObject (jnth fills 0)) fillIntendents
      else if \<not> isString (jget obj ''fills'')
      then Inr (transparentIntendent @ ''color: "transparent"\<newline>'')
      else Inr [])\<close>

definition excludeShaders :: "int \<Rightarrow> string" where
  \<open>excludeShaders intendents =
     (let intendent1 = tabs (intendents + 1);
          intendent2 = tabs (intendents + 2);
          intendent3 = tabs (intendents + 3)
      in concat
        [intendent1 @ ''readonly property string shaderSource: "\<newline>'',
         intendent2 @ ''uniform lowp sampler2D colorSource;\<newline>'',
         intendent2 @ ''uniform lowp sampler2D prevMask;\<newline>'',
         intendent2 @ ''uniform lowp sampler2D currentMask;\<newline>'',
         intendent2 @ ''uniform lowp float qt_Opacity;\<newline>'',
         intendent2 @ ''varying highp vec2 qt_TexCoord0;\<newline>'',
         intendent2 @ ''void main() {\<newline>'',
         intendent3 @ ''vec4 color = texture2D(colorSource, qt_TexCoord0);\<newline>'',
         intendent3 @ ''vec4 cm = texture2D(currentMask, qt_TexCoord0);\<newline>'',
         intendent3 @ ''vec4 pm = texture2D(prevMask, qt_TexCoord0);\<newline>'',
         intendent3 @ ''gl_FragColor = qt_Opacity * color * ((cm.a * (1.0 - pm.a)) + ((1.0 - cm.a) * pm.a));\<newline>'',
         intendent2 @ ''}"\<newline>'',
         intendent1 @ ''readonly property string shaderSource0: "\<newline>'',
         intendent2 @ ''uniform lowp sampler2D colorSource;\<newline>'',
         intendent2 @ ''uniform lowp sampler2D currentMask;\<newline>'',
         intendent2 @ ''uniform lowp float qt_Opacity;\<newline>'',
         intendent2 @ ''varying highp vec2 qt_TexCoord0;\<newline>'',
         intendent2 @ ''void main() {\<newline>'',
         intendent3 @ ''vec4 color = texture2D(colorSource, qt_TexCoord0);\<newline>'',
         intendent3 @ ''vec4 cm = texture2D(currentMask, qt_TexCoord0);\<newline>'',
         intendent3 @ ''gl_FragColor = cm.a * color;\<newline>'',
         intendent2 @ ''}"\<newline>''])\<close>

text \<open>
  The body of the loop of \<open>makeInstanceChildren\<close> over the children of the component,
  for the child \<open>cc\<close>: \<open>children\<close> is what \<open>parseChildrenItems\<close> returned for the instance.
  The comparator for \<open>children\<close> calls \<open>type\<close>, which may throw. Without a key that
  matches, \<open>keyit\<close> is the end iterator, which the last statement dereferences.
\<close>

definition childDelta :: "FigmaParser \<Rightarrow> jobject \<Rightarrow> jobject \<Rightarrow> jobject res" where
  "childDelta p objChild cchild =
     delta objChild cchild {''absoluteBoundingBox'', ''name'', ''id''}
       [(''children'',
         \<lambda>b c. bindR (itemType objChild)
                  (\<lambda>t. Inr (if (t = TBoolean \<and> m_flags p AND BreakBooleans = 0) \<or> b = c then JNull else c)))]"

definition instanceChild ::
  "FigmaParser \<Rightarrow> int \<Rightarrow> json list \<Rightarrow> OrderedMap \<Rightarrow> json \<Rightarrow> string res" where
  "instanceChild p intendents objChildren children cc =
     (let keys = om_keys children;
          intendent = tabs intendents;
          cchild = toObject cc;
          ident = toString (jget cchild ''id'');
          keyit = find (\<lambda>key. lastSection key = ident) keys;
          index = length (takeWhile (\<lambda>key. lastSection key \<noteq> ident) keys);
          objChild = toObject (jnth objChildren index)
      in bindR (childDelta p objChild cchild)
           (\<lambda>deltaObject.
              if deltaObject = [] then Inr []
              else if length deltaObject \<le> 2 \<and>
                      ((length deltaObject = 2 \<and> contains deltaObject ''relativeTransform'' \<and>
                        contains deltaObject ''size'') \<or>
                       (length deltaObject = 1 \<and>
                        (contains deltaObject ''relativeTransform'' \<or> contains deltaObject ''size'')))
              then
                let delegateId = delegateName ident
                in Inr (concat
                  [(if contains deltaObject ''relativeTransform'' then
                      let transform = makeTransforms p objChild (intendents + 1);
                          pos = position objChild
                      in (if transform \<noteq> []
                          then intendent @ argString (argString ''%1_transform: %2\<newline>'' delegateId) transform
                          else []) @
                         intendent @ argInt (argString ''%1_x: %2\<newline>'' delegateId) (static_cast_int (fst pos)) @
                         intendent @ argInt (argString ''%1_y: %2\<newline>'' delegateId) (static_cast_int (snd pos))
                    else []),
                   (if contains deltaObject ''size'' then
                      let sz = toObject (jget deltaObject ''size'')
                      in intendent @ argInt (argString ''%1_width: %2\<newline>'' delegateId)
                                       (static_cast_int (toDouble (jget sz ''x''))) @
                         intendent @ argInt (argString ''%1_height: %2\<newline>'' delegateId)
                                       (static_cast_int (toDouble (jget sz ''y'')))
                    else [])])
              else
                case keyit of
                  None \<Rightarrow> Inl Crash
                | Some key \<Rightarrow>
                    (case om_at children key of
                       None \<Rightarrow> Inl Crash
                     | Some bytes \<Rightarrow> Inr (intendent @ delegateName ident @ '':'' @ bytes))))"

text \<open>
  The functions that call each other along the tree. \<open>parent\<close> is the node \<open>m_parent\<close>
  points to: \<open>parseChildrenItems\<close> sets it to its node for the children and restores it,
  and the direct calls of \<open>parse\<close> in \<open>parseBooleanOperation\<close> leave it as it is.
\<close>

function parse :: "FigmaParser \<Rightarrow> jobject \<Rightarrow> jobject \<Rightarrow> int \<Rightarrow> emitted res"
  and makePlainItem :: "FigmaParser \<Rightarrow> jobject \<Rightarrow> jobject \<Rightarrow> int \<Rightarrow> emitted res"
  and parseFrame :: "FigmaParser \<Rightarrow> jobject \<Rightarrow> jobject \<Rightarrow> int \<Rightarrow> emitted res"
  and parseGroup :: "FigmaParser \<Rightarrow> jobject \<Rightarrow> jobject \<Rightarrow> int \<Rightarrow> emitted res"
  and parseComponent :: "FigmaParser \<Rightarrow> jobject \<Rightarrow> jobject \<Rightarrow> int \<Rightarrow> emitted res"
  and parseBooleanOperation :: "FigmaParser \<Rightarrow> jobject \<Rightarrow> jobject \<Rightarrow> int \<Rightarrow> emitted res"
  and makeInstanceChildren :: "FigmaParser \<Rightarrow> jobject \<Rightarrow> jobject \<Rightarrow> int \<Rightarrow> emitted res"
  and parseInstance :: "FigmaParser \<Rightarrow> jobject \<Rightarrow> jobject \<Rightarrow> int \<Rightarrow> emitted res"
  and parseChildren :: "FigmaParser \<Rightarrow> jobject \<Rightarrow> int \<Rightarrow> emitted res"
  and parseChildrenItems :: "FigmaParser \<Rightarrow> jobject \<Rightarrow> int \<Rightarrow> (OrderedMap \<times> string set) res"
where
  \<open>parse p parent obj intendents =
     (let type = toString (jget obj ''type'') in
      if type \<notin> set parsers then throw [''Non supported object type:"'' @ type @ ''"'']
      else
        bindR (isRendering p obj)
          (\<lambda>rendering.
             if rendering then lift (parseRendered p parent obj intendents)
             else if type = ''RECTANGLE'' then lift (parseRectangle p parent obj intendents)
             else if type = ''TEXT'' then lift (parseText p parent obj intendents)
             else if type = ''COMPONENT'' then parseComponent p parent obj intendents
             else if type = ''BOOLEAN_OPERATION'' then parseBooleanOperation p parent obj intendents
             else if type = ''INSTANCE'' then parseInstance p parent obj intendents
             else if type = ''ELLIPSE'' then lift (parseEllipse p parent obj intendents)
             else if type = ''VECTOR'' then lift (parseVector p parent obj intendents)
             else if type = ''LINE'' then lift (parseLine p parent obj intendents)
             else if type = ''REGULAR_POLYGON'' then lift (parsePolygon p parent obj intendents)
             else if type = ''STAR'' then lift (parseStar p parent obj intendents)
             else if type = ''GROUP'' then parseGroup p parent obj intendents
             else if type = ''FRAME'' then parseFrame p parent obj intendents
             else if type = ''SLICE'' then emit (parseSlice obj intendents)
             else makePlainItem p parent obj intendents))\<close>
| "makePlainItem p parent obj intendents =
     concatW
       [emit (makeItem p ''Rectangle'' obj intendents),
        lift (makeFill p obj intendents),
        lift (makeExtents p parent obj intendents (0, 0, 0, 0)),
        parseChildren p obj intendents,
        emit (tabs (intendents - 1) @ ''}\<newline>'')]"
| "parseFrame p parent obj intendents =
     (let intendent = tabs intendents
      in concatW
        [emit (makeItem p ''Rectangle'' obj intendents),
         lift (makeVector p parent obj intendents),
         emit (if contains obj ''cornerRadius''
               then intendent @ ''radius:'' @ number p (toDouble (jget obj ''cornerRadius'')) @ ''\<newline>''
               else []),
         emit (intendent @ ''clip: '' @ (if toBool (jget obj ''clipsContent'') then ''true'' else ''false'') @
               '' \<newline>''),
         parseChildren p obj intendents,
         emit (tabs (intendents - 1) @ ''}\<newline>'')])"
| "parseGroup p parent obj intendents = parseFrame p parent obj intendents"
| "parseComponent p parent obj intendents =
     (if m_flags p AND ParseComponent = 0 then parseInstance p parent obj intendents
      else
        let intendent = tabs intendents
        in concatW
          [emit (makeItem p ''Rectangle'' obj intendents),
           lift (makeVector p parent obj intendents),
           emit (if contains obj ''cornerRadius''
                 then intendent @ ''radius:'' @ number p (toDouble (jget obj ''cornerRadius'')) @ ''\<newline>''
                 else []),
           emit (intendent @ ''clip: '' @ (if toBool (jget obj ''clipsContent'') then ''true'' else ''false'') @
                 '' \<newline>''),
           bindR (parseChildrenItems p obj intendents)
             (\<lambda>(children, ids).
                bindR (concatR (map (componentDelegate intendents children) (om_keys children)))
                  (\<lambda>delegates.
                     Inr (delegates @
                          intendent @ ''Component.onCompleted: {\<newline>'' @
                          concat (map (componentCompleted intendents) (om_keys children)) @
                          intendent @ ''}\<newline>'', ids))),
           emit (tabs (intendents - 1) @ ''}\<newline>'')])"
| "parseBooleanOperation p parent obj intendents =
     (if m_flags p AND BreakBooleans = 0 then lift (parseVector p parent obj intendents)
      else
        let children = toArray (jget obj ''children'') in
        if length children < 2 then throw [''Boolean needs at least two elemetns'']
        else
          let operation = toString (jget obj ''booleanOperation'');
              intendent = tabs intendents;
              intendent1 = tabs (intendents + 1);
              intendent2 = tabs (intendents + 2);
              sourceId = ''source_'' @ qmlId (toString (jget obj ''id''));
              maskSourceId = ''maskSource_'' @ qmlId (toString (jget obj ''id''))
          in
          if operation = ''UNION'' then
            concatW
              [emit (makeItem p ''Item'' obj intendents),
               lift (makeExtents p parent obj intendents (0, 0, 0, 0)),
               emit (intendent @ ''Rectangle {\<newline>''),
               emit (intendent1 @ ''id: '' @ sourceId @ ''\<newline>''),
               emit (intendent1 @ ''anchors.fill: parent\<newline>''),
               lift (booleanFill p obj (intendents + 1) intendent1),
               emit (intendent1 @ ''visible: false\<newline>''),
               emit (intendent @ ''}\<newline>''),
               emit (intendent @ ''Item {\<newline>''),
               emit (intendent1 @ ''anchors.fill: parent\<newline>''),
               emit (intendent1 @ ''visible: false\<newline>''),
               emit (intendent1 @ ''id: '' @ maskSourceId @ ''\<newline>''),
               parseChildren p obj (intendents + 1),
               emit (intendent @ ''}\<newline>''),
               emit (intendent @ ''OpacityMask {\<newline>''),
               emit (intendent1 @ ''anchors.fill:'' @ sourceId @ ''\<newline>''),
               emit (intendent1 @ ''source:'' @ sourceId @ ''\<newline>''),
               emit (intendent1 @ ''maskSource:'' @ maskSourceId @ ''\<newline>''),
               emit (intendent @ ''}\<newline>''),
               emit (tabs (intendents - 1) @ ''}\<newline>'')]
          else if operation = ''SUBTRACT'' then
            concatW
              [emit (makeItem p ''Item'' obj intendents),
               lift (makeExtents p parent obj intendents (0, 0, 0, 0)),
               emit (intendent @ ''Item {\<newline>''),
               emit (intendent1 @ ''anchors.fill: parent\<newline>''),
               emit (intendent1 @ ''visible: false\<newline>''),
               emit (intendent1 @ ''id: '' @ sourceId @ ''_subtract\<newline>''),
               emit (intendent1 @ ''Rectangle {\<newline>''),
               emit (intendent2 @ ''id: '' @ sourceId @ ''\<newline>''),
               emit (intendent2 @ ''anchors.fill: parent\<newline>''),
               emit (intendent2 @ ''visible: false\<newline>''),
               lift (booleanFill p obj (intendents + 2) intendent1),
               emit (intendent1 @ ''}\<newline>''),
               emit (intendent1 @ ''Item {\<newline>''),
               emit (intendent2 @ ''anchors.fill: parent\<newline>''),
               emit (intendent2 @ ''visible: false\<newline>''),
               emit (intendent2 @ ''id:'' @ maskSourceId @ ''\<newline>''),
               parse p parent (toObject (jnth children 0)) (intendents + 3),
               emit (intendent1 @ ''}\<newline>''),
               emit (intendent1 @ ''OpacityMask {\<newline>''),
               emit (intendent2 @ ''anchors.fill:'' @ sourceId @ ''\<newline>''),
               emit (intendent2 @ ''source:'' @ sourceId @ ''\<newline>''),
               emit (intendent2 @ ''maskSource:'' @ maskSourceId @ ''\<newline>''),
               emit (intendent1 @ ''}\<newline>''),
               emit (intendent @ ''}\<newline>''),
               emit (intendent @ ''Item {\<newline>''),
               emit (intendent1 @ ''anchors.fill: parent\<newline>''),
               emit (intendent1 @ ''visible: false\<newline>''),
               emit (intendent1 @ ''id: '' @ maskSourceId @ ''_subtract\<newline>''),
               concatW (map (\<lambda>i. parse p parent (toObject (jnth children i)) (intendents + 2))
                            [1..<length children]),
               emit (intendent @ ''}\<newline>''),
               emit (intendent @ ''OpacityMask {\<newline>''),
               emit (intendent1 @ ''anchors.fill:'' @ sourceId @ ''_subtract\<newline>''),
               emit (intendent1 @ ''source:'' @ sourceId @ ''_subtract\<newline>''),
               emit (intendent1 @ ''maskSource:'' @ maskSourceId @ ''_subtract\<newline>''),
               emit (intendent1 @ ''invert: true\<newline>''),
               emit (intendent @ ''}\<newline>''),
               emit (tabs (intendents - 1) @ ''}\<newline>'')]
          else if operation = ''INTERSECT'' then
            concatW
              [emit (makeItem p ''Item'' obj intendents),
               lift (makeExtents p parent obj intendents (0, 0, 0, 0)),
               emit (intendent @ ''Rectangle {\<newline>''),
               emit (intendent1 @ ''id: '' @ sourceId @ ''\<newline>''),
               emit (intendent1 @ ''anchors.fill: parent\<newline>''),
               lift (booleanFill p obj (intendents + 1) intendent1),
               emit (intendent1 @ ''visible: false\<newline>''),
               emit (intendent @ ''}\<newline>''),
               bindR
                 (fold (\<lambda>ic acc.
                      bindR acc
                        (\<lambda>(e, nextSourceId).
                           let i = fst ic;
                               maskId = maskSourceId @ ''_'' @ decimal i
                           in bindR (parse p parent (toObject (snd ic)) (intendents + 2))
                                (\<lambda>(bytes, ids).
                                   Inr ((fst e @
                                         intendent @ ''Item {\<newline>'' @
                                         intendent1 @ ''anchors.fill: parent\<newline>'' @
                                         intendent1 @ ''visible: false\<newline>'' @
                                         bytes @
                                         intendent1 @ ''id: '' @ maskId @ ''\<newline>'' @
                                         intendent @ ''}\<newline>'' @
                                         intendent @ ''OpacityMask {\<newline>'' @
                                         intendent1 @ ''anchors.fill:'' @ sourceId @ ''\<newline>'' @
                                         intendent1 @ ''source:'' @ nextSourceId @ ''\<newline>'' @
                                         intendent1 @ ''maskSource:'' @ maskId @ ''\<newline>'' @
                                         intendent1 @ ''id: '' @ (sourceId @ ''_'' @ decimal i) @ ''\<newline>'' @
                                         (if int i < int (length children) - 1
                                          then intendent1 @ ''visible: false\<newline>'' else []) @
                                         intendent @ ''}\<newline>'',
                                         snd e \<union> ids),
                                        sourceId @ ''_'' @ decimal i))))
                    (enumerate 0 children) (Inr (([], {}), sourceId)))
                 (\<lambda>(e, nextSourceId). Inr e),
               emit (tabs (intendents - 1) @ ''}\<newline>'')]
          else if operation = ''EXCLUDE'' then
            concatW
              [emit (makeItem p ''Item'' obj intendents),
               lift (makeExtents p parent obj intendents (0, 0, 0, 0)),
               emit (intendent @ ''Rectangle {\<newline>''),
               emit (intendent1 @ ''id: '' @ sourceId @ ''\<newline>''),
               emit (intendent1 @ ''anchors.fill: parent\<newline>''),
               lift (booleanFill p obj (intendents + 1) intendent1),
               emit (intendent1 @ ''visible: false\<newline>''),
               emit (intendent1 @ ''layer.enabled: true\<newline>''),
               emit (excludeShaders intendents),
               emit (intendent @ ''}\<newline>''),
               bindR
                 (fold (\<lambda>ic acc.
                      bindR acc
                        (\<lambda>(e, nextSourceId).
                           let i = fst ic;
                               maskId = maskSourceId @ ''_'' @ decimal i
                           in bindR (parse p parent (toObject (snd ic)) (intendents + 2))
                                (\<lambda>(bytes, ids).
                                   Inr ((fst e @
                                         intendent @ ''Item {\<newline>'' @
                                         intendent1 @ ''visible: false\<newline>'' @
                                         intendent1 @ ''anchors.fill: parent\<newline>'' @
                                         bytes @
                                         intendent1 @ ''layer.enabled: true\<newline>'' @
                                         intendent1 @ ''id: '' @ maskId @ ''\<newline>'' @
                                         intendent @ ''}\<newline>'' @
                                         intendent @ ''ShaderEffect {\<newline>'' @
                                         intendent1 @ ''anchors.fill: parent\<newline>'' @
                                         intendent1 @ ''layer.enabled: true\<newline>'' @
                                         intendent1 @ ''property var colorSource:'' @ sourceId @ ''\<newline>'' @
                                         (if nextSourceId \<noteq> [] then
                                            intendent2 @ ''property var prevMask: ShaderEffectSource {\<newline>'' @
                                            intendent2 @ ''sourceItem: '' @ nextSourceId @ ''\<newline>'' @
                                            intendent1 @ ''}\<newline>''
                                          else []) @
                                         intendent1 @ ''property var currentMask:'' @ maskId @ ''\<newline>'' @
                                         intendent1 @ ''fragmentShader: '' @ sourceId @
                                           (if nextSourceId = [] then ''.shaderSource0'' else ''.shaderSource'') @
                                           ''\<newline>'' @
                                         (if int i < int (length children) - 1 then
                                            intendent1 @ ''visible: false\<newline>'' @
                                            intendent1 @ ''id: '' @ (sourceId @ ''_'' @ decimal i) @ ''\<newline>''
                                          else []) @
                                         intendent1 @ ''}\<newline>'',
                                         snd e \<union> ids),
                                        sourceId @ ''_'' @ decimal i))))
                    (enumerate 0 children) (Inr (([], {}), [])))
                 (\<lambda>(e, nextSourceId). Inr e),
               emit (tabs (intendents - 1) @ ''}\<newline>'')]
          else
            bindR (concatW
                     [emit (makeItem p ''Item'' obj intendents),
                      lift (makeExtents p parent obj intendents (0, 0, 0, 0))])
              (\<lambda>out. Inr ([], {})))"
| "makeInstanceChildren p obj cmp intendents =
     (let compChildren = toArray (jget cmp ''children'');
          objChildren = toArray (jget obj ''children'')
      in bindR (parseChildrenItems p obj intendents)
           (\<lambda>(children, ids).
              if length compChildren \<noteq> om_size children
              then Inr (concat (map snd children), ids)
              else
                bindR (concatR (map (instanceChild p intendents objChildren children) compChildren))
                  (\<lambda>out. Inr (out, ids))))"
| "parseInstance p parent obj intendents =
     bindR (itemType obj)
       (\<lambda>t.
          let isInstance = (t = TInstance);
              componentId = toString (if isInstance then jget obj ''componentId'' else jget obj ''id'')
          in case map_of (m_components p) componentId of
               None \<Rightarrow>
                 throw [''Unexpected component dependency from'', toString (jget obj ''id''), ''to'', componentId]
             | Some cmp \<Rightarrow>
                 bindR
                   (if \<not> isInstance then emit (makeComponentInstance (c_name cmp) obj intendents)
                    else
                      bindR (delta obj (c_object cmp) {''children''} [])
                        (\<lambda>instanceObject.
                           let instanceObject =
                                 (if contains obj ''fills'' \<and> \<not> contains instanceObject ''fills''
                                  then jinsert ''fills'' (JString []) instanceObject else instanceObject);
                               instanceObject =
                                 (if contains obj ''strokes'' \<and> \<not> contains instanceObject ''strokes''
                                  then jinsert ''strokes'' (JString []) instanceObject else instanceObject)
                           in concatW
                             [emit (makeItem p (c_name cmp) instanceObject intendents),
                              lift (makeVector p parent instanceObject intendents),
                              makeInstanceChildren p obj (c_object cmp) intendents]))
                   (\<lambda>(out, ids). Inr (out @ tabs (intendents - 1) @ ''}\<newline>'', insert componentId ids)))"
| "parseChildren p obj intendents =
     bindR (parseChildrenItems p obj intendents)
       (\<lambda>(childrenItems, ids). Inr (concat (map snd childrenItems), ids))"
| "parseChildrenItems p obj intendents =
     (if contains obj ''children'' then
        bindR
          (fold (\<lambda>c acc.
               bindR acc
                 (\<lambda>(hasMask, out, childrenItems, ids).
                    let child = toObject c;
                        isMask = (contains child ''isMask'' \<and> toBool (jget child ''isMask''))
                    in if isMask then
                         bindR (parse p obj child (intendents + 2))
                           (\<lambda>(bytes, ids').
                              Inr (True,
                                   out @ maskHead intendents child @ bytes @ maskTail intendents child,
                                   childrenItems, ids \<union> ids'))
                       else
                         bindR (parse p obj child (if hasMask then intendents + 2 else intendents + 1))
                           (\<lambda>(bytes, ids').
                              Inr (hasMask, out,
                                   om_insert (toString (jget child ''id'')) bytes childrenItems,
                                   ids \<union> ids'))))
             (toArray (jget obj ''children'')) (Inr (False, [], [], {})))
          (\<lambda>(hasMask, out, childrenItems, ids).
             if hasMask
             then Inr (om_insert ''maskedItem''
                         (out @ concat (map snd childrenItems) @
                          tabs (intendents + 1) @ ''}\<newline>'' @ tabs intendents @ ''}\<newline>'') [],
                       ids)
             else Inr (childrenItems, ids))
      else Inr ([], {}))"
  by pat_completeness auto
termination
  by (relation "measures
        [\<lambda>x. case x of
                Inl (Inl (Inl (p, parent, obj, n))) \<Rightarrow> objSize obj
              | Inl (Inl (Inr (p, parent, obj, n))) \<Rightarrow> objSize obj
              | Inl (Inr (Inl (p, parent, obj, n))) \<Rightarrow> objSize obj
              | Inl (Inr (Inr (Inl (p, parent, obj, n)))) \<Rightarrow> objSize obj
              | Inl (Inr (Inr (Inr (p, parent, obj, n)))) \<Rightarrow> objSize obj
              | Inr (Inl (Inl (p, parent, obj, n))) \<Rightarrow> objSize obj
              | Inr (Inl (Inr (p, obj, cmp, n))) \<Rightarrow> objSize obj
              | Inr (Inr (Inl (p, parent, obj, n))) \<Rightarrow> objSize obj
              | Inr (Inr (Inr (Inl (p, obj, n)))) \<Rightarrow> objSize obj
              | Inr (Inr (Inr (Inr (p, obj, n)))) \<Rightarrow> objSize obj,
         \<lambda>x. case x of
                Inl (Inl (Inl (p, parent, obj, n))) \<Rightarrow> 9
              | Inl (Inl (Inr (p, parent, obj, n))) \<Rightarrow> 7
              | Inl (Inr (Inl (p, parent, obj, n))) \<Rightarrow> 7
              | Inl (Inr (Inr (Inl (p, parent, obj, n)))) \<Rightarrow> 8
              | Inl (Inr (Inr (Inr (p, parent, obj, n)))) \<Rightarrow> 7
              | Inr (Inl (Inl (p, parent, obj, n))) \<Rightarrow> 7
              | Inr (Inl (Inr (p, obj, cmp, n))) \<Rightarrow> 5
              | Inr (Inr (Inl (p, parent, obj, n))) \<Rightarrow> 6
              | Inr (Inr (Inr (Inl (p, obj, n)))) \<Rightarrow> 1
              | Inr (Inr (Inr (Inr (p, obj, n)))) \<Rightarrow> 0]")
     (auto simp: size_child size_child_jnth size_child_jnth0 size_child_enumerate)

declare parse.simps [simp del] makePlainItem.simps [simp del] parseFrame.simps [simp del]
  parseGroup.simps [simp del] parseComponent.simps [simp del] parseBooleanOperation.simps [simp del]
  makeInstanceChildren.simps [simp del] parseInstance.simps [simp del] parseChildren.simps [simp del]
  parseChildrenItems.simps [simp del]

section \<open>The entry points\<close>

record Element =
  e_name :: string
  e_id :: string
  e_type :: string
  e_data :: string
  e_componentIds :: "string set"

text \<open>\<open>Element()\<close>, the default element.\<close>

definition defaultElement :: Element where
  "defaultElement = \<lparr>e_name = [], e_id = [], e_type = [], e_data = [], e_componentIds = {}\<rparr>"

definition getElement :: "FigmaParser \<Rightarrow> jobject \<Rightarrow> Element res" where
  "getElement p obj =
     bindR (parse p obj obj 1)
       (\<lambda>(bytes, ids).
          Inr \<lparr>e_name = validFileName (toString (jget obj ''name'')),
               e_id = toString (jget obj ''id''),
               e_type = toString (jget obj ''type''),
               e_data = bytes,
               e_componentIds = ids\<rparr>)"

text \<open>
  \<open>element\<close> and \<open>component\<close> catch the exception, report it through \<open>err\<close> with
  \<open>isFatal = true\<close> and return the default element. What they return here is the element
  with the list of the calls of \<open>err\<close>; \<open>None\<close> stands for a run that left the defined
  behaviour. The text \<open>err\<close> gets is \<open>what()\<close>, a \<open>const char*\<close> made into a \<open>QString\<close>:
  the text of the exception when that is ASCII. The first parameter is the text Qt writes
  for a \<open>double\<close>.
\<close>

definition catchElement :: "Element res \<Rightarrow> (Element \<times> (string \<times> bool) list) option" where
  "catchElement r =
     (case r of
        Inr e \<Rightarrow> Some (e, [])
      | Inl (Thrown ex) \<Rightarrow> Some (defaultElement, [(what ex, True)])
      | Inl Crash \<Rightarrow> None)"

definition element ::
  "(real \<Rightarrow> string) \<Rightarrow> jobject \<Rightarrow> 32 word \<Rightarrow> (string \<Rightarrow> bool \<Rightarrow> string) \<Rightarrow> (string \<Rightarrow> string)
     \<Rightarrow> Components \<Rightarrow> (Element \<times> (string \<times> bool) list) option" where
  "element qtNumber obj flags data resolveFont comps =
     catchElement
       (getElement \<lparr>m_flags = flags, mImageProvider = data, mResolveFont = resolveFont,
                    m_components = comps, number = qtNumber\<rparr> obj)"

definition component ::
  "(real \<Rightarrow> string) \<Rightarrow> jobject \<Rightarrow> 32 word \<Rightarrow> (string \<Rightarrow> bool \<Rightarrow> string) \<Rightarrow> (string \<Rightarrow> string)
     \<Rightarrow> Components \<Rightarrow> (Element \<times> (string \<times> bool) list) option" where
  "component qtNumber obj flags data resolveFont comps =
     catchElement
       (getElement \<lparr>m_flags = flags OR ParseComponent, mImageProvider = data, mResolveFont = resolveFont,
                    m_components = comps, number = qtNumber\<rparr> obj)"

text \<open>
  A parser to run the transpiler on examples: no image, no component, the given flags;
  every number is written as \<open>0\<close>.
\<close>

definition exampleParser :: "32 word \<Rightarrow> FigmaParser" where
  "exampleParser flags =
     \<lparr>m_flags = flags, mImageProvider = (\<lambda>img isRendering. []), mResolveFont = (\<lambda>family. family),
      m_components = [], number = (\<lambda>d. ''0'')\<rparr>"








text \<open>
  A frame with three rectangles, the second of which is a mask: one sibling before the
  mask and one after it.
\<close>

definition beforeMask :: jobject where
  "beforeMask = [(''id'', JString ''1:2''), (''name'', JString ''before''), (''type'', JString ''RECTANGLE'')]"

definition maskNode :: jobject where
  "maskNode = [(''id'', JString ''1:3''), (''isMask'', JBool True), (''name'', JString ''mask''),
               (''type'', JString ''RECTANGLE'')]"

definition afterMask :: jobject where
  "afterMask = [(''id'', JString ''1:4''), (''name'', JString ''after''), (''type'', JString ''RECTANGLE'')]"

definition maskedFrame :: jobject where
  "maskedFrame =
     [(''children'', JArray [JObject beforeMask, JObject maskNode, JObject afterMask]),
      (''id'', JString ''1:1''),
      (''name'', JString ''frame''),
      (''type'', JString ''FRAME'')]"


text \<open>How many times a pattern occurs in a text: the number of places where it starts.\<close>

fun occurrences :: "string \<Rightarrow> string \<Rightarrow> nat" where
  "occurrences pat [] = 0"
| "occurrences pat (c # s) = (if take (length pat) (c # s) = pat then 1 else 0) + occurrences pat s"

text \<open>
  Rectangles to run \<open>parseVector\<close> on: a stroke of weight 2 that is centered, the same
  inside, a stroke without a weight, a fill that is an image, and strokes and fills that
  are strings. \<open>imageParser\<close> is the example parser with an image provider that has data.
\<close>

definition black :: json where
  "black = JObject [(''color'', JObject [(''a'', JDouble 1), (''b'', JDouble 0), (''g'', JDouble 0),
                                        (''r'', JDouble 0)])]"







section \<open>Facts about the transpiler\<close>

text \<open>A call returns: it neither throws nor leaves the defined behaviour.\<close>

definition returns :: "'a res \<Rightarrow> bool" where
  "returns r = (case r of Inl e \<Rightarrow> False | Inr v \<Rightarrow> True)"

lemma catchElement_throw:
  "catchElement (bindR (throw args) f) =
     Some (defaultElement, [(''FigmaParser exception: '' @ toStr args, True)])"
  by (simp add: catchElement_def bindR_def throw_def mkException_def)














lemma returns_Inr [simp]: "returns (Inr v)"
  by (simp add: returns_def)

lemma returns_Inl [simp]: "\<not> returns (Inl e)"
  by (simp add: returns_def)

lemma returns_emit [simp]: "returns (emit s)"
  by (simp add: emit_def)

lemma returns_lift [simp]: "returns (lift r) = returns r"
  by (cases r) (simp_all add: lift_def)























subsection \<open>The texts of the vector strategies\<close>

lemma occurrences_append: "occurrences pat a + occurrences pat b \<le> occurrences pat (a @ b)"
proof (induction a)
  case Nil
  show ?case by simp
next
  case (Cons c a)
  have "take (length pat) (c # a) = pat \<Longrightarrow> take (length pat) (c # a @ b) = pat"
  proof -
    assume t: "take (length pat) (c # a) = pat"
    have "length (take (length pat) (c # a)) \<le> length (c # a)"
      by (simp del: take_Suc_Cons)
    with t have "length pat \<le> length (c # a)"
      by simp
    then have "take (length pat) ((c # a) @ b) = take (length pat) (c # a)"
      by (simp del: append_Cons take_Suc_Cons)
    with t show ?thesis by simp
  qed
  with Cons show ?case by auto
qed

lemma occurrences_hit:
  assumes "pat \<noteq> []" "take (length pat) s = pat"
  shows "1 \<le> occurrences pat (a @ s)"
proof -
  obtain c t where s: "s = c # t" using assms by (cases s) auto
  have "1 \<le> occurrences pat s" unfolding s using assms(2) [unfolded s] by simp
  then show ?thesis using occurrences_append [of pat a s] by simp
qed

lemma occurrences_later: "k \<le> occurrences pat b \<Longrightarrow> k \<le> occurrences pat (a @ b)"
  using occurrences_append [of pat a b] by simp

lemma occurrences_earlier: "k \<le> occurrences pat a \<Longrightarrow> k \<le> occurrences pat (a @ b)"
  using occurrences_append [of pat a b] by simp






lemma occurrences_pair_fst: "k \<le> occurrences pat a \<Longrightarrow> k \<le> occurrences pat (concat [a, b])"
  using occurrences_append [of pat a b] by simp



lemma makeShapeStroke_colour:
  assumes "\<not> isString (jget obj ''strokes'')"
  shows "1 \<le> occurrences (if jget obj ''type'' = JString ''LINE'' then ''fillColor:'' else ''strokeColor:'')
               (makeShapeStroke p obj k ty)"
proof (cases "contains obj ''strokes'' \<and> toArray (jget obj ''strokes'') \<noteq> []")
  case True
  show ?thesis
    unfolding makeShapeStroke_def Let_def
    apply (rule occurrences_pair_fst)
    apply (simp only: True if_True simp_thms)
    apply (rule occurrences_later)
    apply (rule occurrences_hit)
     apply (simp_all split: if_splits)
    done
next
  case False
  show ?thesis
    unfolding makeShapeStroke_def Let_def
    apply (rule occurrences_pair_fst)
    apply (simp only: False assms if_False if_True simp_thms)
    apply (rule occurrences_hit)
     apply (simp_all split: if_splits)
    done
qed

lemma makeShapeFill_colour:
  assumes "\<not> isString (jget obj ''fills'')"
  shows "1 \<le> occurrences (if jget obj ''type'' = JString ''LINE'' then ''strokeColor:'' else ''fillColor:'')
               (makeShapeFill obj k)"
proof (cases "jget obj ''type'' = JString ''LINE''")
  case True
  show ?thesis
    unfolding makeShapeFill_def Let_def
    apply (rule occurrences_pair_fst)
    apply (simp only: True if_True if_False simp_thms)
    apply (rule occurrences_hit)
     apply simp_all
    done
next
  case line: False
  show ?thesis
  proof (cases "contains obj ''fills'' \<and> toArray (jget obj ''fills'') \<noteq> []")
    case True
    show ?thesis
      unfolding makeShapeFill_def Let_def
      apply (rule occurrences_pair_fst)
      apply (simp only: line True if_True if_False simp_thms)
      apply (rule occurrences_hit)
       apply simp_all
      done
  next
    case False
    show ?thesis
      unfolding makeShapeFill_def Let_def
      apply (rule occurrences_pair_fst)
      apply (simp only: line False assms if_True if_False simp_thms)
      apply (rule occurrences_hit)
       apply simp_all
      done
  qed
qed

text \<open>
  With strokes and fills that are no strings, the stroke and the fill of a shape path hold
  a stroke colour and a fill colour between them (a line has the two the other way round).
\<close>

lemma stroke_fill_colours:
  assumes "\<not> isString (jget obj ''strokes'')" "\<not> isString (jget obj ''fills'')"
  shows "1 \<le> occurrences ''strokeColor:'' (makeShapeStroke p obj k ty @ makeShapeFill obj k) \<and>
         1 \<le> occurrences ''fillColor:'' (makeShapeStroke p obj k ty @ makeShapeFill obj k)"
proof (cases "jget obj ''type'' = JString ''LINE''")
  case True
  show ?thesis
    using makeShapeStroke_colour [OF assms(1), of p k ty] makeShapeFill_colour [OF assms(2), of k]
    by (simp add: True occurrences_earlier occurrences_later)
next
  case False
  show ?thesis
    using makeShapeStroke_colour [OF assms(1), of p k ty] makeShapeFill_colour [OF assms(2), of k]
    by (simp add: False occurrences_earlier occurrences_later)
qed










section \<open>The claims about the sanitizer and the catalogue\<close>

text \<open>
  Claim C7, as the code has it. When the registration of a component fails (no body in the
  document, and the lookup returns nothing, or its response does not parse, or the
  response lacks the body), \<open>components\<close> calls the error callback once, with the message
  of the failure and \<open>isFatal = true\<close>, and does not propagate the exception. What it
  returns is the catalogue of the components registered before the failing one, in the
  order of the keys; it is empty only when the failing key is the first.
\<close>

theorem components_failure_reported:
  assumes "keys (toObject (jget project ''components'')) = ks1 @ key # ks2"
    and "distinct (ks1 @ [key])"
    and "\<forall>k\<in>set ks1. \<not> registrationFails fromJson nodes
            (getObjectsByType (toObject (jget project ''document'')) ''COMPONENT'') k"
    and "registrationFails fromJson nodes
            (getObjectsByType (toObject (jget project ''document'')) ''COMPONENT'') key"
  shows "snd (components fromJson project nodes)
           = [(''FigmaParser exception: '' @ failureIssue fromJson nodes key, True)] \<and>
         map fst (fst (components fromJson project nodes)) = ks1"
proof -
  have d: "distinct (map fst ([] :: Components) @ ks1 @ [key])" using assms(2) by simp
  from registerAll_fails [OF assms(3) assms(4) d, of "toObject (jget project ''components'')" ks2]
  show ?thesis
    unfolding components_registerAll assms(1)
    by (simp add: mkException_def)
qed

theorem components_failure_reported_witness:
  "snd (components (\<lambda>_. None) oneMissing (\<lambda>_. []))
     = [(''FigmaParser exception: '' @ failureIssue (\<lambda>_. None) (\<lambda>_. []) ''2:2'', True)] \<and>
   map fst (fst (components (\<lambda>_. None) oneMissing (\<lambda>_. []))) = [''1:1'']"
proof -
  have 1: "keys (toObject (jget oneMissing ''components'')) = [''1:1''] @ ''2:2'' # []"
    by code_simp
  have 2: "distinct ([''1:1''] @ [''2:2''])" by simp
  have 3: "\<forall>k\<in>set [''1:1'']. \<not> registrationFails (\<lambda>_. None) (\<lambda>_. [])
            (getObjectsByType (toObject (jget oneMissing ''document'')) ''COMPONENT'') k"
    by code_simp
  have 4: "registrationFails (\<lambda>_. None) (\<lambda>_. [])
            (getObjectsByType (toObject (jget oneMissing ''document'')) ''COMPONENT'') ''2:2''"
    by code_simp
  show ?thesis using components_failure_reported [OF 1 2 3 4] .
qed

text \<open>
  Claim C7 as stated fails: in the project \<open>oneMissing\<close> the component \<open>1:1\<close> has its body
  in the document and \<open>2:2\<close> has none, and the lookup returns no bytes. The registration of
  \<open>2:2\<close> fails and is reported as fatal, and the catalogue returned holds \<open>1:1\<close>.
\<close>

theorem components_failure_not_empty:
  "registrationFails (\<lambda>_. None) (\<lambda>_. [])
      (getObjectsByType (toObject (jget oneMissing ''document'')) ''COMPONENT'') ''2:2'' \<and>
   snd (components (\<lambda>_. None) oneMissing (\<lambda>_. []))
      = [(''FigmaParser exception: Component not found 2:2 for'', True)] \<and>
   map c_name (map snd (fst (components (\<lambda>_. None) oneMissing (\<lambda>_. [])))) = [''Button_figma''] \<and>
   fst (components (\<lambda>_. None) oneMissing (\<lambda>_. [])) \<noteq> []"
  by code_simp

text \<open>
  Claim C8, as the code has it. The sanitized form of a raw name that is not empty starts
  with a capital letter and ends with the suffix \<open>_figma\<close>. Sanitizing is not idempotent:
  the sanitized name breaks the assertion of \<open>validFileName\<close> (the name it is given must
  not end with the suffix), and where the assertion is compiled out the second application
  appends the suffix once more.
\<close>

theorem validFileName_twice:
  "n \<noteq> [] \<Longrightarrow>
     validFileName (validFileName n) = validFileName n @ FIGMA_SUFFIX \<and>
     validFileName (validFileName n) \<noteq> validFileName n \<and>
     \<not> validFileName_assert (validFileName n) \<and>
     startsWithLetter (validFileName n) \<and> isUpper (validFileName n ! 0)"
  using validFileName_again [of n] validFileName_endsWith [of n]
    validFileName_startsWithLetter [of n] validFileName_head [of n]
  by (auto simp: validFileName_assert_def FIGMA_SUFFIX_def)

theorem validFileName_twice_witness:
  "''ab'' \<noteq> [] \<and>
     validFileName (validFileName ''ab'') = validFileName ''ab'' @ FIGMA_SUFFIX \<and>
     validFileName (validFileName ''ab'') \<noteq> validFileName ''ab'' \<and>
     \<not> validFileName_assert (validFileName ''ab'') \<and>
     startsWithLetter (validFileName ''ab'') \<and> isUpper (validFileName ''ab'' ! 0)"
proof -
  have h: "''ab'' \<noteq> []" by simp
  show ?thesis using h validFileName_twice [OF h] by blast
qed

text \<open>
  Claim C8 as stated fails at the raw name \<open>a\<close>: it is sanitized to \<open>A_figma\<close>, and
  sanitizing that gives \<open>A_figma_figma\<close>.
\<close>

theorem validFileName_not_idempotent:
  "validFileName ''a'' = ''A_figma'' \<and>
   validFileName (validFileName ''a'') = ''A_figma_figma'' \<and>
   validFileName (validFileName ''a'') \<noteq> validFileName ''a''"
  by code_simp

text \<open>
  Claim C9 on two components of the raw name \<open>%1\<close>. The first is named \<open>C_1_figma\<close>. For
  the second the candidate is \<open>QString("%1_%2").arg("%1").arg(1)\<close>: the counter goes to the
  \<open>%1\<close> that came with the raw name, and the \<open>%2\<close> of the format stays. The name is the
  sanitized \<open>1_%2\<close>; the sanitized raw name with the counter suffixed would be
  \<open>C_1_1_figma\<close>. The two names of the catalogue differ.
\<close>

theorem components_place_marker_names:
  "map (\<lambda>c. c_name (snd c)) (fst (components (\<lambda>_. None) twoMarkers (\<lambda>_. [])))
     = [''C_1_figma'', ''C1__2_figma''] \<and>
   argInt (argString ''%1_%2'' ''%1'') 1 = ''1_%2'' \<and>
   validFileName ''1_%2'' = ''C1__2_figma'' \<and>
   validFileName (''%1'' @ ''_'' @ decimal 1) = ''C_1_1_figma''"
proof (intro conjI)
  show "map (\<lambda>c. c_name (snd c)) (fst (components (\<lambda>_. None) twoMarkers (\<lambda>_. [])))
     = [''C_1_figma'', ''C1__2_figma'']"
    by code_simp
  show "argInt (argString ''%1_%2'' ''%1'') 1 = ''1_%2''"
    by code_simp
  show "validFileName ''1_%2'' = ''C1__2_figma''"
    by code_simp
  show "validFileName (''%1'' @ ''_'' @ decimal 1) = ''C_1_1_figma''"
    by code_simp
qed

text \<open>
  Claim C10. \<open>validFileName\<close> returns the empty name for the empty name, and the empty name
  is the one raw name whose sanitized form does not start with a letter.
\<close>

theorem validFileName_empty:
  "validFileName [] = [] \<and> (\<forall>n. startsWithLetter (validFileName n) \<longleftrightarrow> n \<noteq> [])"
proof -
  have "\<not> startsWithLetter (validFileName [])"
    by (simp add: validFileName_Nil startsWithLetter_def)
  then have "\<And>n. startsWithLetter (validFileName n) \<longleftrightarrow> n \<noteq> []"
    using validFileName_startsWithLetter by blast
  then show ?thesis by (simp add: validFileName_Nil)
qed

section \<open>The claims about the transpiler\<close>

text \<open>
  Claim C1. A node whose type string is none of the fourteen strings \<open>parse\<close> knows makes
  \<open>parse\<close> throw the exception \<open>Non supported object type\<close>, whatever the parser, the
  parent and the indentation are; \<open>element\<close> then calls \<open>err\<close> once, with the text of the
  exception and \<open>isFatal = true\<close>, and returns the default element, whose data is empty.
\<close>

theorem unknown_type_is_fatal:
  assumes "toString (jget obj ''type'') \<notin>
             {''RECTANGLE'', ''TEXT'', ''COMPONENT'', ''BOOLEAN_OPERATION'', ''INSTANCE'', ''ELLIPSE'',
              ''VECTOR'', ''LINE'', ''REGULAR_POLYGON'', ''STAR'', ''GROUP'', ''FRAME'', ''SLICE'', ''NONE''}"
  shows "parse p parent obj intendents =
           Inl (Thrown (Exception (''FigmaParser exception: Non supported object type:\"'' @
                                   toString (jget obj ''type'') @ ''\"''))) \<and>
         element qtNumber obj flags data resolveFont comps =
           Some (defaultElement,
                 [(''FigmaParser exception: Non supported object type:\"'' @
                   toString (jget obj ''type'') @ ''\"'', True)]) \<and>
         e_data defaultElement = []"
proof -
  have t: "toString (jget obj ''type'') \<notin> set parsers"
    using assms by (simp add: parsers_def)
  have 1: "parse q par obj k = throw [''Non supported object type:\"'' @ toString (jget obj ''type'') @ ''\"'']"
    for q par k
    using t by (subst parse.simps) (simp add: Let_def)
  show ?thesis
    unfolding element_def getElement_def 1
    by (simp add: catchElement_throw defaultElement_def) (simp add: throw_def mkException_def)
qed

theorem unknown_type_is_fatal_witness:
  "toString (jget [(''type'', JString ''UNKNOWN_TYPE'')] ''type'') \<notin>
             {''RECTANGLE'', ''TEXT'', ''COMPONENT'', ''BOOLEAN_OPERATION'', ''INSTANCE'', ''ELLIPSE'',
              ''VECTOR'', ''LINE'', ''REGULAR_POLYGON'', ''STAR'', ''GROUP'', ''FRAME'', ''SLICE'', ''NONE''} \<and>
   parse (exampleParser 0) [] [(''type'', JString ''UNKNOWN_TYPE'')] 1 =
     Inl (Thrown (Exception ''FigmaParser exception: Non supported object type:\"UNKNOWN_TYPE\"'')) \<and>
   element (\<lambda>d. ''0'') [(''type'', JString ''UNKNOWN_TYPE'')] 0 (\<lambda>i r. []) (\<lambda>f. f) [] =
     Some (defaultElement, [(''FigmaParser exception: Non supported object type:\"UNKNOWN_TYPE\"'', True)])"
proof -
  have h: "toString (jget [(''type'', JString ''UNKNOWN_TYPE'')] ''type'') \<notin>
             {''RECTANGLE'', ''TEXT'', ''COMPONENT'', ''BOOLEAN_OPERATION'', ''INSTANCE'', ''ELLIPSE'',
              ''VECTOR'', ''LINE'', ''REGULAR_POLYGON'', ''STAR'', ''GROUP'', ''FRAME'', ''SLICE'', ''NONE''}"
    by (simp add: jget_def toString_def)
  have v: "toString (jget [(''type'', JString ''UNKNOWN_TYPE'')] ''type'') = ''UNKNOWN_TYPE''"
    by (simp add: jget_def toString_def)
  show ?thesis
    using h unknown_type_is_fatal [OF h, of "exampleParser 0" "[]" 1 "\<lambda>d. ''0''" 0 "\<lambda>i r. []" "\<lambda>f. f" "[]"]
    unfolding v by simp
qed








text \<open>
  Claim C4 on the frame \<open>maskedFrame\<close>, whose children are a rectangle, a rectangle that
  is a mask, and a rectangle. \<open>parseChildrenItems\<close> returns one item, under the key
  \<open>maskedItem\<close>: the mask composition, the item \<open>mask_\<close> with the markup of the mask node,
  and the item \<open>source_\<close>, which holds the markup of the sibling before the mask (as
  \<open>parse\<close> wrote it one level higher) and then that of the sibling after it. No item is
  left outside the composite for the sibling before the mask.
\<close>

theorem mask_captures_preceding_sibling:
  \<open>parse (exampleParser 0) maskedFrame beforeMask 2 =
     Inr (''    Shape {\<newline>'' @
          ''        id: figma_1_2\<newline>'' @
          ''        objectName:"before"\<newline>'' @
          ''        ShapePath {\<newline>'' @
          ''            strokeColor: "transparent"\<newline>'' @
          ''            fillColor:"transparent"\<newline>'' @
          ''            id: svgpath_figma_1_2\<newline>'' @
          ''        }\<newline>'' @
          ''    }\<newline>'',
          {}) \<and>
   parseChildrenItems (exampleParser 0) maskedFrame 1 =
     Inr ([(''maskedItem'',
            ''    Item {\<newline>'' @
            ''    anchors.fill:parent\<newline>'' @
            ''    OpacityMask {\<newline>'' @
            ''        anchors.fill:parent\<newline>'' @
            ''        source: source_figma_1_3\<newline>'' @
            ''        maskSource: mask_figma_1_3\<newline>'' @
            ''    }\<newline>'' @
            ''\<newline>'' @
            ''    Item {\<newline>'' @
            ''        id: mask_figma_1_3\<newline>'' @
            ''        anchors.fill:parent\<newline>'' @
            ''        Shape {\<newline>'' @
            ''            id: figma_1_3\<newline>'' @
            ''            objectName:"mask"\<newline>'' @
            ''            ShapePath {\<newline>'' @
            ''                strokeColor: "transparent"\<newline>'' @
            ''                fillColor:"transparent"\<newline>'' @
            ''                id: svgpath_figma_1_3\<newline>'' @
            ''            }\<newline>'' @
            ''        }\<newline>'' @
            ''        visible:false\<newline>'' @
            ''    }\<newline>'' @
            ''\<newline>'' @
            ''    Item {\<newline>'' @
            ''        id: source_figma_1_3\<newline>'' @
            ''        anchors.fill:parent\<newline>'' @
            ''        visible:false\<newline>'' @
            ''    Shape {\<newline>'' @
            ''        id: figma_1_2\<newline>'' @
            ''        objectName:"before"\<newline>'' @
            ''        ShapePath {\<newline>'' @
            ''            strokeColor: "transparent"\<newline>'' @
            ''            fillColor:"transparent"\<newline>'' @
            ''            id: svgpath_figma_1_2\<newline>'' @
            ''        }\<newline>'' @
            ''    }\<newline>'' @
            ''        Shape {\<newline>'' @
            ''            id: figma_1_4\<newline>'' @
            ''            objectName:"after"\<newline>'' @
            ''            ShapePath {\<newline>'' @
            ''                strokeColor: "transparent"\<newline>'' @
            ''                fillColor:"transparent"\<newline>'' @
            ''                id: svgpath_figma_1_4\<newline>'' @
            ''            }\<newline>'' @
            ''        }\<newline>'' @
            ''        }\<newline>'' @
            ''    }\<newline>'')],
          {})\<close>
proof (intro conjI)
  show \<open>parse (exampleParser 0) maskedFrame beforeMask 2 =
     Inr (''    Shape {\<newline>'' @
          ''        id: figma_1_2\<newline>'' @
          ''        objectName:"before"\<newline>'' @
          ''        ShapePath {\<newline>'' @
          ''            strokeColor: "transparent"\<newline>'' @
          ''            fillColor:"transparent"\<newline>'' @
          ''            id: svgpath_figma_1_2\<newline>'' @
          ''        }\<newline>'' @
          ''    }\<newline>'',
          {})\<close>
    by code_simp
  show \<open>parseChildrenItems (exampleParser 0) maskedFrame 1 =
     Inr ([(''maskedItem'',
            ''    Item {\<newline>'' @
            ''    anchors.fill:parent\<newline>'' @
            ''    OpacityMask {\<newline>'' @
            ''        anchors.fill:parent\<newline>'' @
            ''        source: source_figma_1_3\<newline>'' @
            ''        maskSource: mask_figma_1_3\<newline>'' @
            ''    }\<newline>'' @
            ''\<newline>'' @
            ''    Item {\<newline>'' @
            ''        id: mask_figma_1_3\<newline>'' @
            ''        anchors.fill:parent\<newline>'' @
            ''        Shape {\<newline>'' @
            ''            id: figma_1_3\<newline>'' @
            ''            objectName:"mask"\<newline>'' @
            ''            ShapePath {\<newline>'' @
            ''                strokeColor: "transparent"\<newline>'' @
            ''                fillColor:"transparent"\<newline>'' @
            ''                id: svgpath_figma_1_3\<newline>'' @
            ''            }\<newline>'' @
            ''        }\<newline>'' @
            ''        visible:false\<newline>'' @
            ''    }\<newline>'' @
            ''\<newline>'' @
            ''    Item {\<newline>'' @
            ''        id: source_figma_1_3\<newline>'' @
            ''        anchors.fill:parent\<newline>'' @
            ''        visible:false\<newline>'' @
            ''    Shape {\<newline>'' @
            ''        id: figma_1_2\<newline>'' @
            ''        objectName:"before"\<newline>'' @
            ''        ShapePath {\<newline>'' @
            ''            strokeColor: "transparent"\<newline>'' @
            ''            fillColor:"transparent"\<newline>'' @
            ''            id: svgpath_figma_1_2\<newline>'' @
            ''        }\<newline>'' @
            ''    }\<newline>'' @
            ''        Shape {\<newline>'' @
            ''            id: figma_1_4\<newline>'' @
            ''            objectName:"after"\<newline>'' @
            ''            ShapePath {\<newline>'' @
            ''                strokeColor: "transparent"\<newline>'' @
            ''                fillColor:"transparent"\<newline>'' @
            ''                id: svgpath_figma_1_4\<newline>'' @
            ''            }\<newline>'' @
            ''        }\<newline>'' @
            ''        }\<newline>'' @
            ''    }\<newline>'')],
          {})\<close>
    by code_simp
qed





end
